theory Spec2Isabelle
  imports Complex_Main
begin

section \<open>Carrom Arena: game service, stake validation and fraud scoring\<close>

text \<open>
  A shallow embedding of the TypeScript game service (class \<open>GameService\<close>), of the
  stake validation helper and of the fraud detection service of the project guide.

  Conventions of the embedding.
  \<^item> A JavaScript \<open>number\<close> that may hold a fraction (stake, force, angle, fraud score,
    averages) is a \<open>real\<close>: the value of the double. Comparisons of doubles are exact.
    Where the source multiplies, divides, adds or subtracts such numbers (in
    \<open>calculatePrizePool\<close> and in the timing statistics of the fraud scorer), every
    operation is rounded to the nearest double by \<open>rnd\<close>, as the machine does. The
    payout \<open>Math.floor(prizePool * 0.9)\<close> of an integer prize pool is written without
    rounding.
  \<^item> The result of \<open>Math.floor\<close>, a counter or an index is an \<open>int\<close>. A \<open>Date\<close> is
    its \<open>getTime()\<close>, an \<open>int\<close> of milliseconds (of magnitude at most 8.64e15 in any
    JavaScript engine).
  \<^item> An optional field is an \<open>option\<close>.
  \<^item> Names are the source's. Where a name is taken already, it is changed: the \<open>id\<close>
    of a game is \<open>game_id\<close>, the \<open>id\<close>, \<open>type\<close> and \<open>data\<close> of a move are \<open>moveId\<close>,
    \<open>moveType\<close> and \<open>moveData\<close>, the coins of a board are \<open>boardCoins\<close> and the \<open>id\<close> and \<open>type\<close>
    of such a coin \<open>coinId\<close> and \<open>coinType\<close>, the phase
    \<open>FINISHED\<close> is \<open>PHASE_FINISHED\<close>, the move type \<open>FOUL\<close> is \<open>FOUL_MOVE\<close>, and the
    fields of an argument object that share a name with a field of the game end in
    \<open>_in\<close>.
  \<^item> Every \<open>new Date()\<close> of one operation reads the same instant, an argument \<open>now\<close>;
    generated identifiers are arguments as well.
  \<^item> A thrown value is an \<open>error\<close>; a function that may throw returns
    \<open>error + 'a\<close>.
\<close>

subsection \<open>Thrown values\<close>

text \<open>
  \<open>Error m\<close> is \<open>new Error(m)\<close>; \<open>ZodError fs\<close> is the error thrown by
  \<open>schema.parse\<close>, with the paths of the failing fields in schema order; \<open>TypeError\<close>
  is what reading a property of \<open>undefined\<close> throws; \<open>ErrorFrom p e\<close> is
  \<open>new Error(`p${e}`)\<close>, the wrapping done by the \<open>catch\<close> blocks.
\<close>

datatype error =
    Error string
  | ZodError "string list"
  | TypeError
  | ErrorFrom string error

subsection \<open>Data model\<close>

datatype GameMode = CLASSIC | BLITZ | TOURNAMENT

datatype GameStatus = WAITING | STARTING | IN_PROGRESS | FINISHED | CANCELLED

datatype SkillLevel = BEGINNER | INTERMEDIATE | ADVANCED | PRO

datatype GamePhase = PLACEMENT | PLAYING | PHASE_FINISHED

datatype CoinType = WHITE | BLACK | QUEEN

datatype MoveType = STRIKE | POSITION | FOUL_MOVE | TIMEOUT

datatype MoveResult = SUCCESS | MISS | FOUL

record GamePlayer =
  userId :: string
  name :: string
  avatar :: "string option"
  skillLevel :: SkillLevel
  coins :: "string list"
  score :: real
  isReady :: bool
  isActive :: bool
  joinedAt :: int

record Point =
  x :: real
  y :: real

record BoardCoin = Point +
  coinId :: string
  coinType :: CoinType
  owner :: "string option"
  isPocketed :: bool

record Pocket = Point +
  radius :: real

record BoardState =
  striker :: Point
  boardCoins :: "BoardCoin list"
  pockets :: "Pocket list"

record GameState =
  currentPlayer :: string
  turnNumber :: int
  board :: BoardState
  gamePhase :: GamePhase
  timeRemaining :: real
  lastMoveAt :: int

record MoveRecordData =
  strikerPosition :: Point
  targetCoins :: "string list"
  force :: real
  angle :: real
  result :: MoveResult

record GameMove =
  moveId :: string
  gameId :: string
  playerId :: string
  moveNumber :: int
  moveType :: MoveType
  moveData :: MoveRecordData
  timestamp :: int

record Game =
  game_id :: string
  roomId :: string
  gameMode :: GameMode
  players :: "GamePlayer list"
  stakeAmount :: real
  prizePool :: int
  status :: GameStatus
  gameState :: GameState
  startTime :: "int option"
  endTime :: "int option"
  winner :: "string option"
  moves :: "GameMove list"
  createdAt :: int

text \<open>The argument of \<open>createGame\<close>.\<close>

record GameData =
  hostId :: string
  gameMode_in :: GameMode
  stakeAmount_in :: real
  isPrivate :: bool
  maxPlayers :: real
  timeLimit :: real

text \<open>The argument \<open>moveData\<close> of \<open>processMove\<close>.\<close>

record MoveInput =
  strikerPosition_in :: Point
  force_in :: real
  angle_in :: real
  targetCoins_in :: "string list option"

subsection \<open>Double-precision arithmetic\<close>

text \<open>
  Rounding of a real to the nearest IEEE 754 binary64 number, ties to the even
  significand. \<open>bits n\<close> is the length of \<open>n\<close> in binary; \<open>bexp v\<close> is, for positive \<open>v\<close>,
  the exponent \<open>e\<close> with \<open>2^e \<le> v < 2^(e+1)\<close>; the quantum of a double of that size is
  \<open>2^(e-52)\<close>, and \<open>2^(-1074)\<close> for the subnormal ones. Infinities are not represented:
  the numbers of the functions below stay far under the largest double, given stakes
  that pass the schema and time values of dates.
\<close>

fun bits :: "nat \<Rightarrow> nat" where
  "bits n = (if n = 0 then 0 else Suc (bits (n div 2)))"

declare bits.simps [simp del]

definition bexp :: "real \<Rightarrow> int" where
  "bexp v =
     (if 1 \<le> v then int (bits (nat \<lfloor>v\<rfloor>)) - 1
      else let k = int (bits (nat \<lfloor>1 / v\<rfloor>)) - 1
           in if v * 2 ^ nat k = 1 then - k else - k - 1)"

definition pow2 :: "int \<Rightarrow> real" where
  "pow2 e = (if 0 \<le> e then 2 ^ nat e else 1 / 2 ^ nat (- e))"

definition roundHalfEven :: "real \<Rightarrow> int" where
  "roundHalfEven v =
     (let f = \<lfloor>v\<rfloor>; d = v - of_int f
      in if d < 1 / 2 then f else if 1 / 2 < d then f + 1 else if even f then f else f + 1)"

definition rnd :: "real \<Rightarrow> real" where
  "rnd v =
     (if v = 0 then 0
      else let q = pow2 (max (bexp \<bar>v\<bar> - 52) (- 1074))
           in of_int (roundHalfEven (v / q)) * q)"

subsection \<open>Pure helpers of \<open>GameService\<close>\<close>

text \<open>\<open>Array.prototype.findIndex\<close>: the first index whose element satisfies the
  predicate, \<open>-1\<close> when there is none.\<close>

fun findIndex :: "('a \<Rightarrow> bool) \<Rightarrow> 'a list \<Rightarrow> int" where
  "findIndex P [] = - 1"
| "findIndex P (a # as) =
     (if P a then 0 else (let i = findIndex P as in if i < 0 then - 1 else i + 1))"

text \<open>
  \<open>getNextPlayer\<close>. \<open>currentIndex + 1\<close> is never negative, so JavaScript's \<open>%\<close> is
  \<open>mod\<close>. On an empty list the index is \<open>NaN\<close>, the element \<open>undefined\<close>, and reading
  \<open>.userId\<close> throws.
\<close>

definition getNextPlayer :: "GamePlayer list \<Rightarrow> string \<Rightarrow> error + string" where
  "getNextPlayer ps currentPlayerId =
     (let currentIndex = findIndex (\<lambda>p. userId p = currentPlayerId) ps
      in if ps = [] then Inl TypeError
         else Inr (userId (ps ! nat ((currentIndex + 1) mod int (length ps)))))"

text \<open>\<open>determineFirstPlayer\<close>: \<open>players[0].userId\<close>, which throws on an empty list.\<close>

definition determineFirstPlayer :: "GamePlayer list \<Rightarrow> error + string" where
  "determineFirstPlayer ps = (case ps of [] \<Rightarrow> Inl TypeError | p # _ \<Rightarrow> Inr (userId p))"

text \<open>Decimal rendering of a natural number, as a template literal prints it.\<close>

fun decimal :: "nat \<Rightarrow> string" where
  "decimal n =
     (if n < 10 then [''0123456789'' ! n]
      else decimal (n div 10) @ [''0123456789'' ! (n mod 10)])"

declare decimal.simps [simp del]

definition whiteCoins :: "string list" where
  "whiteCoins = map (\<lambda>i. ''white_'' @ decimal (i + 1)) [0..<9]"

definition blackCoins :: "string list" where
  "blackCoins = map (\<lambda>i. ''black_'' @ decimal (i + 1)) [0..<9]"

text \<open>\<open>assignCoinsToPlayers\<close>: \<open>players.map((player, index) => ...)\<close>; the spread keeps
  every other field of the player.\<close>

definition assignCoinsToPlayers :: "GamePlayer list \<Rightarrow> GamePlayer list" where
  "assignCoinsToPlayers ps =
     map (\<lambda>(player, index). player\<lparr>coins := (if index mod 2 = 0 then whiteCoins else blackCoins)\<rparr>)
       (zip ps [0..<length ps])"

text \<open>\<open>calculatePrizePool\<close>: five percent server fee, rounded down. The literal \<open>0.05\<close>
  is the double nearest to 5/100, and the two products and the difference are
  rounded.\<close>

definition calculatePrizePool :: "real \<Rightarrow> real \<Rightarrow> int" where
  "calculatePrizePool stake playerCount =
     (let totalStakes = rnd (stake * playerCount);
          serverFee = rnd (totalStakes * rnd (5 / 100))
      in \<lfloor>rnd (totalStakes - serverFee)\<rfloor>)"

subsection \<open>Validation\<close>

text \<open>\<open>validateStakeAmount\<close> of the validation utilities.\<close>

definition validateStakeAmount :: "real \<Rightarrow> bool" where
  "validateStakeAmount amount \<longleftrightarrow> amount \<ge> 10 \<and> amount \<le> 2000"

text \<open>
  \<open>validateGameCreation\<close>: the zod schema. \<open>gameMode\<close> and \<open>isPrivate\<close> are well-typed
  by construction; the other four fields are range-checked, each failing field
  contributing one issue, and \<open>parse\<close> throws when there is any issue.
\<close>

definition schemaIssues :: "GameData \<Rightarrow> string list" where
  "schemaIssues d =
     (if length (hostId d) \<ge> 1 then [] else [''hostId''])
     @ (if stakeAmount_in d \<ge> 10 \<and> stakeAmount_in d \<le> 2000 then [] else [''stakeAmount''])
     @ (if maxPlayers d \<ge> 2 \<and> maxPlayers d \<le> 4 then [] else [''maxPlayers''])
     @ (if timeLimit d \<ge> 5 \<and> timeLimit d \<le> 30 then [] else [''timeLimit''])"

definition validateGameCreation :: "GameData \<Rightarrow> error + GameData" where
  "validateGameCreation d =
     (if schemaIssues d = [] then Inr d else Inl (ZodError (schemaIssues d)))"

subsection \<open>Collaborators of the game service\<close>

text \<open>
  The database and wallet methods of \<open>GameService\<close> are placeholders (the source marks
  them "implement based on your system": \<open>getGameById\<close> answers \<open>null\<close>,
  \<open>lockPlayerStake\<close> does nothing), and several of its own checks have placeholder bodies
  (\<open>validateMove\<close> and \<open>canPlayerJoinGame\<close> always agree, \<open>checkWinCondition\<close> never
  finds a winner). The operations below take them from an environment, so that what is
  proved of an operation holds for every implementation of them; \<open>sourceEnv\<close> fills in
  the bodies the source has, over a given database lookup and stake-lock behaviour.
  \<^item> \<open>getGameById\<close> returns the stored game, or \<open>None\<close> for \<open>null\<close>.
  \<^item> \<open>lockPlayerStake\<close> returns \<open>None\<close> when the lock is granted and \<open>Some e\<close> when it
    throws \<open>e\<close>.
  \<^item> \<open>updateGameStateFromMove\<close> returns \<open>SameObject\<close> when it hands back the state
    object it was given (as the source's body does) and \<open>NewObject s\<close> for a fresh one.
\<close>

record PhysicsResult =
  physResult :: MoveResult
  updatedBoard :: BoardState
  coinsPocketed :: "string list"
  scoreChange :: real

datatype 'a returned = SameObject | NewObject 'a

record Env =
  getGameById :: "string \<Rightarrow> Game option"
  checkPlayerEligibility :: "string \<Rightarrow> real \<Rightarrow> bool \<times> string"
  lockPlayerStake :: "string \<Rightarrow> string \<Rightarrow> real \<Rightarrow> error option"
  canPlayerJoinGame :: "Game \<Rightarrow> string \<Rightarrow> bool \<times> string"
  validateMove :: "Game \<Rightarrow> string \<Rightarrow> MoveInput \<Rightarrow> bool \<times> string"
  simulateMove :: "BoardState \<Rightarrow> MoveInput \<Rightarrow> PhysicsResult"
  updateGameStateFromMove :: "GameState \<Rightarrow> GameMove \<Rightarrow> PhysicsResult \<Rightarrow> GameState returned"
  checkWinCondition :: "GameState \<Rightarrow> GamePlayer list \<Rightarrow> bool \<times> string"

text \<open>\<open>simulateMove\<close> as the source has it: \<open>determineMoveResult\<close> answers
  \<open>{success: true, foul: false}\<close> and \<open>processCollisionEffects\<close> leaves the board as
  it is.\<close>

definition simulateMove_src :: "BoardState \<Rightarrow> MoveInput \<Rightarrow> PhysicsResult" where
  "simulateMove_src b m =
     (let success = True; foul = False
      in \<lparr>physResult = (if success then SUCCESS else if foul then FOUL else MISS),
          updatedBoard = b, coinsPocketed = [], scoreChange = 0\<rparr>)"

definition sourceEnv ::
  "(string \<Rightarrow> Game option) \<Rightarrow> (string \<Rightarrow> string \<Rightarrow> real \<Rightarrow> error option) \<Rightarrow> Env" where
  "sourceEnv db lock =
     \<lparr>getGameById = db,
      checkPlayerEligibility = (\<lambda>playerId amount. (True, '''')),
      lockPlayerStake = lock,
      canPlayerJoinGame = (\<lambda>game playerId. (True, '''')),
      validateMove = (\<lambda>game playerId moveData. (True, '''')),
      simulateMove = simulateMove_src,
      updateGameStateFromMove = (\<lambda>currentState move physicsResult. SameObject),
      checkWinCondition = (\<lambda>state ps. (False, ''''))\<rparr>"

text \<open>
  The remaining collaborator calls return nothing the service looks at. Each one that
  completes is appended to a ledger, in the order the service makes them; games passed
  to the persistence layer are recorded as they are at the time of the call.
\<close>

datatype call =
    StoreGame Game
  | UpdateGame Game
  | LockPlayerStake string string real
  | ReleaseAllStakes string
  | TransferPrize "string option" int string
  | UpdatePlayerStats string
  | RecordGameCompletion string
  | LogGameMove GameMove GameState
  | StartGameTimer string
  | NotifyGameStarted Game
  | InitiateGameStart string

text \<open>
  The result of running an operation: what it returns or throws, the game object it
  worked on as it is in memory when the operation ends (also when it throws), and the
  ledger.
\<close>

record 'a run =
  outcome :: "error + 'a"
  object :: "Game option"
  ledger :: "call list"

definition fail :: "string \<Rightarrow> error \<Rightarrow> Game option \<Rightarrow> call list \<Rightarrow> 'a run" where
  "fail prefix e obj l = \<lparr>outcome = Inl (ErrorFrom prefix e), object = obj, ledger = l\<rparr>"

subsection \<open>Operations of \<open>GameService\<close>\<close>

definition fourPockets :: "Pocket list" where
  "fourPockets =
     [\<lparr>x = 50, y = 50, radius = 15\<rparr>,
      \<lparr>x = 450, y = 50, radius = 15\<rparr>,
      \<lparr>x = 450, y = 450, radius = 15\<rparr>,
      \<lparr>x = 50, y = 450, radius = 15\<rparr>]"

definition createInitialGameState :: "int \<Rightarrow> GameState" where
  "createInitialGameState now =
     \<lparr>currentPlayer = '''', turnNumber = 1,
      board = \<lparr>striker = \<lparr>x = 0, y = 0\<rparr>, boardCoins = [], pockets = fourPockets\<rparr>,
      gamePhase = PLACEMENT, timeRemaining = 300, lastMoveAt = now\<rparr>"

definition setupInitialBoard :: BoardState where
  "setupInitialBoard = \<lparr>striker = \<lparr>x = 250, y = 400\<rparr>, boardCoins = [], pockets = fourPockets\<rparr>"

definition createGamePlayer :: "string \<Rightarrow> string \<Rightarrow> int \<Rightarrow> GamePlayer" where
  "createGamePlayer pid role now =
     \<lparr>userId = pid, name = ''Player Name'', avatar = None, skillLevel = INTERMEDIATE,
      coins = [], score = 0, isReady = False, isActive = True, joinedAt = now\<rparr>"

definition isGameReadyToStart :: "Game \<Rightarrow> bool" where
  "isGameReadyToStart game \<longleftrightarrow> length (players game) \<ge> 2"

definition canStartGame :: "Game \<Rightarrow> bool" where
  "canStartGame game \<longleftrightarrow> status game = WAITING \<and> length (players game) \<ge> 2"

text \<open>\<open>calculatePrizeDistribution\<close>: one entry, for \<open>game.winner!\<close>; the assertion
  checks nothing at run time, so the entry carries the optional field as it is.\<close>

definition calculatePrizeDistribution :: "Game \<Rightarrow> (string option \<times> int) list" where
  "calculatePrizeDistribution game = [(winner game, \<lfloor>real_of_int (prizePool game) * 0.9\<rfloor>)]"

text \<open>
  \<open>distributePrizes\<close>. \<open>!game.winner\<close> holds for an absent winner and for the empty
  string. The game is only read; the ledger is the state.
\<close>

definition distributePrizes :: "Game \<Rightarrow> call list \<Rightarrow> error + call list" where
  "distributePrizes game l =
     (if winner game = None \<or> winner game = Some ''''
      then Inl (ErrorFrom ''Failed to distribute prizes: '' (Error ''No winner determined''))
      else Inr (l @ map (\<lambda>(p, amount). TransferPrize p amount (game_id game))
                      (calculatePrizeDistribution game)
                  @ [ReleaseAllStakes (game_id game), UpdatePlayerStats (game_id game),
                     RecordGameCompletion (game_id game)]))"

text \<open>
  \<open>createGame\<close>, with the clock reading and the two generated identifiers as
  arguments.
\<close>

definition createGame :: "Env \<Rightarrow> int \<Rightarrow> string \<Rightarrow> string \<Rightarrow> GameData \<Rightarrow> call list \<Rightarrow> Game run" where
  "createGame env now newRoomId newGameId gameData l =
     (case validateGameCreation gameData of
        Inl e \<Rightarrow> fail ''Game creation failed: '' e None l
      | Inr validatedData \<Rightarrow>
          (case checkPlayerEligibility env (hostId validatedData) (stakeAmount_in validatedData) of
             (eligible, reason) \<Rightarrow>
               if \<not> eligible then fail ''Game creation failed: '' (Error reason) None l
               else
                 let pool = calculatePrizePool (stakeAmount_in validatedData) (maxPlayers validatedData);
                     game0 = \<lparr>game_id = newGameId, roomId = newRoomId,
                              gameMode = gameMode_in validatedData, players = [],
                              stakeAmount = stakeAmount_in validatedData, prizePool = pool,
                              status = WAITING, gameState = createInitialGameState now,
                              startTime = None, endTime = None, winner = None,
                              moves = [], createdAt = now\<rparr>;
                     game = game0\<lparr>players := players game0
                                       @ [createGamePlayer (hostId validatedData) ''HOST'' now]\<rparr>;
                     l1 = l @ [StoreGame game]
                 in (case lockPlayerStake env (hostId validatedData) newGameId
                            (stakeAmount_in validatedData) of
                       Some e \<Rightarrow> fail ''Game creation failed: '' e (Some game) l1
                     | None \<Rightarrow>
                         \<lparr>outcome = Inr game, object = Some game,
                          ledger = l1 @ [LockPlayerStake (hostId validatedData) newGameId
                                           (stakeAmount_in validatedData)]\<rparr>)))"

text \<open>\<open>joinGame\<close>. The player is pushed onto \<open>game.players\<close> first and the stake is
  locked next; \<open>initiateGameStart\<close> schedules \<open>startGame\<close> three seconds later.\<close>

definition joinGame :: "Env \<Rightarrow> int \<Rightarrow> string \<Rightarrow> string \<Rightarrow> call list \<Rightarrow> Game run" where
  "joinGame env now gid pid l =
     (case getGameById env gid of
        None \<Rightarrow> fail ''Failed to join game: '' (Error ''Game not found'') None l
      | Some game \<Rightarrow>
          (case canPlayerJoinGame env game pid of
             (allowed, reason) \<Rightarrow>
               if \<not> allowed then fail ''Failed to join game: '' (Error reason) (Some game) l
               else
                 (case checkPlayerEligibility env pid (stakeAmount game) of
                    (eligible, reason') \<Rightarrow>
                      if \<not> eligible
                      then fail ''Failed to join game: '' (Error reason') (Some game) l
                      else
                        let player = createGamePlayer pid ''PLAYER'' now;
                            game1 = game\<lparr>players := players game @ [player]\<rparr>
                        in (case lockPlayerStake env pid gid (stakeAmount game1) of
                              Some e \<Rightarrow> fail ''Failed to join game: '' e (Some game1) l
                            | None \<Rightarrow>
                                let l1 = l @ [LockPlayerStake pid gid (stakeAmount game1),
                                              UpdateGame game1];
                                    l2 = (if isGameReadyToStart game1
                                          then l1 @ [InitiateGameStart (game_id game1)]
                                          else l1)
                                in \<lparr>outcome = Inr game1, object = Some game1, ledger = l2\<rparr>))))"

text \<open>\<open>startGame\<close>.\<close>

definition startGame :: "Env \<Rightarrow> int \<Rightarrow> string \<Rightarrow> call list \<Rightarrow> Game run" where
  "startGame env now gid l =
     (case getGameById env gid of
        None \<Rightarrow> fail ''Failed to start game: '' (Error ''Game not found'') None l
      | Some game \<Rightarrow>
          if \<not> canStartGame game
          then fail ''Failed to start game: '' (Error ''Game cannot be started'') (Some game) l
          else
            let ps = assignCoinsToPlayers (players game);
                game1 = game\<lparr>players := ps,
                             gameState := (createInitialGameState now)\<lparr>board := setupInitialBoard\<rparr>,
                             status := IN_PROGRESS, startTime := Some now\<rparr>
            in (case determineFirstPlayer (players game1) of
                  Inl e \<Rightarrow> fail ''Failed to start game: '' e (Some game1) l
                | Inr first \<Rightarrow>
                    let game2 = game1\<lparr>gameState := (gameState game1)\<lparr>currentPlayer := first\<rparr>\<rparr>
                    in \<lparr>outcome = Inr game2, object = Some game2,
                        ledger = l @ [UpdateGame game2, StartGameTimer gid,
                                      NotifyGameStarted game2]\<rparr>))"

text \<open>
  \<open>processMove\<close>, with the clock reading and the generated move identifier as
  arguments. The move number is assigned by the service from the length of the move
  log; the caller supplies none. When the state update hands back the game's own state
  object, marking the new state finished also marks the game's state.
\<close>

definition finishMove ::
  "Game \<Rightarrow> GameState \<Rightarrow> GameMove \<Rightarrow> call list \<Rightarrow> (MoveResult \<times> GameState) run" where
  "finishMove game newGameState move l =
     (let game' = game\<lparr>moves := moves game @ [move], gameState := newGameState\<rparr>
      in \<lparr>outcome = Inr (result (moveData move), newGameState), object = Some game',
          ledger = l @ [UpdateGame game', LogGameMove move newGameState]\<rparr>)"

definition processMove ::
  "Env \<Rightarrow> int \<Rightarrow> string \<Rightarrow> string \<Rightarrow> string \<Rightarrow> MoveInput \<Rightarrow> call list
     \<Rightarrow> (MoveResult \<times> GameState) run" where
  "processMove env now newMoveId gid pid m l =
     (case getGameById env gid of
        None \<Rightarrow> fail ''Failed to process move: '' (Error ''Game not found'') None l
      | Some game \<Rightarrow>
          (case validateMove env game pid m of
             (valid, reason) \<Rightarrow>
               if \<not> valid then fail ''Failed to process move: '' (Error reason) (Some game) l
               else
                 let physicsResult = simulateMove env (board (gameState game)) m;
                     move = \<lparr>moveId = newMoveId, gameId = gid, playerId = pid,
                             moveNumber = int (length (moves game)) + 1, moveType = STRIKE,
                             moveData = \<lparr>strikerPosition = strikerPosition_in m,
                                         targetCoins = (case targetCoins_in m of
                                                          None \<Rightarrow> [] | Some t \<Rightarrow> t),
                                         force = force_in m, angle = angle_in m,
                                         result = physResult physicsResult\<rparr>,
                             timestamp = now\<rparr>;
                     upd = updateGameStateFromMove env (gameState game) move physicsResult;
                     newGameState = (case upd of SameObject \<Rightarrow> gameState game
                                                | NewObject s \<Rightarrow> s)
                 in (case checkWinCondition env newGameState (players game) of
                       (hasWinner, w) \<Rightarrow>
                         if hasWinner then
                           let newGameState' = newGameState\<lparr>gamePhase := PHASE_FINISHED\<rparr>;
                               game1 = game\<lparr>gameState := (case upd of
                                                             SameObject \<Rightarrow> newGameState'
                                                           | NewObject s \<Rightarrow> gameState game),
                                            status := FINISHED, winner := Some w,
                                            endTime := Some now\<rparr>
                           in (case distributePrizes game1 l of
                                 Inl e \<Rightarrow> fail ''Failed to process move: '' e (Some game1) l
                               | Inr l1 \<Rightarrow> finishMove game1 newGameState' move l1)
                         else
                           (case getNextPlayer (players game) pid of
                              Inl e \<Rightarrow> fail ''Failed to process move: '' e (Some game) l
                            | Inr next \<Rightarrow>
                                finishMove game (newGameState\<lparr>currentPlayer := next\<rparr>) move l))))"

subsection \<open>Fraud detection service\<close>

datatype Severity = HIGH | MEDIUM

datatype AlertAction = INVESTIGATE | MONITOR

text \<open>The two things \<open>flagSuspiciousActivity\<close> can do: \<open>createFraudAlert\<close> with the
  fields user, game, score, severity, action and description, and
  \<open>temporaryRestriction\<close> with a user and a reason.\<close>

datatype fraud_call =
    CreateFraudAlert string string real Severity AlertAction string
  | TemporaryRestriction string string

definition flagSuspiciousActivity :: "string \<Rightarrow> real \<Rightarrow> string \<Rightarrow> fraud_call list" where
  "flagSuspiciousActivity uid fraudScore gid =
     (if fraudScore > 75
      then [CreateFraudAlert uid gid fraudScore HIGH INVESTIGATE
              ''Suspicious gameplay patterns detected'',
            TemporaryRestriction uid ''SUSPECTED_FRAUD'']
      else if fraudScore > 50
      then [CreateFraudAlert uid gid fraudScore MEDIUM MONITOR
              ''Unusual gameplay patterns detected'']
      else [])"

text \<open>
  \<open>analyzeTimingPatterns\<close>. \<open>history.slice(-10)\<close> keeps the last ten moves; the
  intervals are the differences of consecutive timestamps in milliseconds. The sum of
  the intervals, their mean, each deviation from the mean, its square
  (\<open>Math.pow(d, 2)\<close>, the rounded product), the running sum of squares and the variance
  are doubles, each rounded where it is computed.
\<close>

definition sliceLast :: "nat \<Rightarrow> 'a list \<Rightarrow> 'a list" where
  "sliceLast n as = drop (length as - n) as"

definition intervalsOf :: "GameMove list \<Rightarrow> real list" where
  "intervalsOf recentMoves =
     map (\<lambda>i. rnd (real_of_int (timestamp (recentMoves ! i))
                  - real_of_int (timestamp (recentMoves ! (i - 1)))))
       [1..<length recentMoves]"

definition avgOf :: "real list \<Rightarrow> real" where
  "avgOf intervals = rnd (foldl (\<lambda>a b. rnd (a + b)) 0 intervals / real (length intervals))"

definition varianceOf :: "real list \<Rightarrow> real" where
  "varianceOf intervals =
     rnd (foldl (\<lambda>acc interval.
                  rnd (acc + rnd (rnd (interval - avgOf intervals)
                                    * rnd (interval - avgOf intervals))))
            0 intervals
          / real (length intervals))"

definition analyzeTimingPatterns :: "GameMove \<Rightarrow> GameMove list \<Rightarrow> real" where
  "analyzeTimingPatterns move history =
     (let recentMoves = sliceLast 10 history
      in if length recentMoves < 3 then 0
         else
           let intervals = intervalsOf recentMoves;
               avgInterval = avgOf intervals;
               variance = varianceOf intervals
           in if variance < 100 \<and> avgInterval < 2000 then 40
              else if avgInterval < 500 then 60
              else 0)"

subsection \<open>Matches reachable from a creation request\<close>

text \<open>
  \<open>reachable d g\<close>: the game object \<open>g\<close> is what one of the four operations leaves in
  memory, starting from \<open>createGame\<close> on the request \<open>d\<close> and continuing with
  \<open>joinGame\<close>, \<open>startGame\<close> and \<open>processMove\<close> on a database that hands the current
  object back. Any environment, clock reading, identifier and ledger may be used at each
  step, and so may a step that throws.
\<close>

inductive reachable :: "GameData \<Rightarrow> Game \<Rightarrow> bool" where
  created: "object (createGame env now rid gid d l) = Some g \<Longrightarrow> reachable d g"
| joined: "reachable d g \<Longrightarrow> getGameById env gid = Some g
            \<Longrightarrow> object (joinGame env now gid pid l) = Some g' \<Longrightarrow> reachable d g'"
| started: "reachable d g \<Longrightarrow> getGameById env gid = Some g
            \<Longrightarrow> object (startGame env now gid l) = Some g' \<Longrightarrow> reachable d g'"
| moved: "reachable d g \<Longrightarrow> getGameById env gid = Some g
            \<Longrightarrow> object (processMove env now mid gid pid m l) = Some g' \<Longrightarrow> reachable d g'"

text \<open>The stakes locked for a game according to a ledger: the amounts of its
  \<open>lockPlayerStake\<close> calls.\<close>

fun lockedStakes :: "string \<Rightarrow> call list \<Rightarrow> real" where
  "lockedStakes gid [] = 0"
| "lockedStakes gid (LockPlayerStake p g a # cs) =
     (if g = gid then a else 0) + lockedStakes gid cs"
| "lockedStakes gid (c # cs) = lockedStakes gid cs"

text \<open>The payouts a ledger records: the receiver and amount of its \<open>transferPrize\<close>
  calls.\<close>

fun payouts :: "call list \<Rightarrow> (string option \<times> int) list" where
  "payouts [] = []"
| "payouts (TransferPrize p a g # cs) = (p, a) # payouts cs"
| "payouts (c # cs) = payouts cs"

text \<open>The moves a ledger logs: the moves of its \<open>logGameMove\<close> calls.\<close>

fun loggedMoves :: "call list \<Rightarrow> GameMove list" where
  "loggedMoves [] = []"
| "loggedMoves (LogGameMove mv st # cs) = mv # loggedMoves cs"
| "loggedMoves (c # cs) = loggedMoves cs"

subsection \<open>Example inputs and runs\<close>

text \<open>
  A host \<open>alice\<close> creates a classic match with stake 100 and capacity \<open>n\<close>; \<open>bob\<close>
  joins; the match starts; \<open>alice\<close> strikes. The database of each step holds the game
  the previous step left, and the checks are the ones the source has.
\<close>

definition exampleData :: "real \<Rightarrow> real \<Rightarrow> GameData" where
  "exampleData stake n =
     \<lparr>hostId = ''alice'', gameMode_in = CLASSIC, stakeAmount_in = stake, isPrivate = False,
      maxPlayers = n, timeLimit = 10\<rparr>"

definition noGames :: "string \<Rightarrow> Game option" where
  "noGames gid = None"

definition oneGame :: "Game \<Rightarrow> string \<Rightarrow> Game option" where
  "oneGame g gid = (if gid = game_id g then Some g else None)"

definition lockGranted :: "string \<Rightarrow> string \<Rightarrow> real \<Rightarrow> error option" where
  "lockGranted pid gid amount = None"

definition lockRefused :: "string \<Rightarrow> string \<Rightarrow> real \<Rightarrow> error option" where
  "lockRefused pid gid amount = Some (Error ''Insufficient balance'')"

definition exampleCreated :: "real \<Rightarrow> Game" where
  "exampleCreated n =
     \<lparr>game_id = ''g1'', roomId = ''room1'', gameMode = CLASSIC,
      players = [createGamePlayer ''alice'' ''HOST'' 0],
      stakeAmount = 100, prizePool = calculatePrizePool 100 n, status = WAITING,
      gameState = createInitialGameState 0, startTime = None, endTime = None,
      winner = None, moves = [], createdAt = 0\<rparr>"

definition exampleJoined :: "real \<Rightarrow> Game" where
  "exampleJoined n =
     (exampleCreated n)\<lparr>players := players (exampleCreated n)
                                      @ [createGamePlayer ''bob'' ''PLAYER'' 1]\<rparr>"

definition exampleStarted :: "real \<Rightarrow> Game" where
  "exampleStarted n =
     (exampleJoined n)\<lparr>players := assignCoinsToPlayers (players (exampleJoined n)),
        gameState := (createInitialGameState 2)\<lparr>board := setupInitialBoard,
                                                  currentPlayer := ''alice''\<rparr>,
        status := IN_PROGRESS, startTime := Some 2\<rparr>"

definition exampleInput :: MoveInput where
  "exampleInput =
     \<lparr>strikerPosition_in = \<lparr>x = 250, y = 400\<rparr>, force_in = 50, angle_in = 90,
      targetCoins_in = None\<rparr>"

definition exampleMove :: GameMove where
  "exampleMove =
     \<lparr>moveId = ''m1'', gameId = ''g1'', playerId = ''alice'', moveNumber = 1, moveType = STRIKE,
      moveData = \<lparr>strikerPosition = \<lparr>x = 250, y = 400\<rparr>, targetCoins = [], force = 50,
                  angle = 90, result = SUCCESS\<rparr>,
      timestamp = 3\<rparr>"

definition exampleMoved :: Game where
  "exampleMoved =
     (exampleStarted 2)\<lparr>moves := [exampleMove],
        gameState := (gameState (exampleStarted 2))\<lparr>currentPlayer := ''bob''\<rparr>\<rparr>"

definition runCreate :: "real \<Rightarrow> Game run" where
  "runCreate n =
     createGame (sourceEnv noGames lockGranted) 0 ''room1'' ''g1'' (exampleData 100 n) []"

definition runJoin :: "real \<Rightarrow> Game run" where
  "runJoin n =
     joinGame (sourceEnv (oneGame (exampleCreated n)) lockGranted) 1 ''g1'' ''bob''
       (ledger (runCreate n))"

definition runStart :: "real \<Rightarrow> Game run" where
  "runStart n =
     startGame (sourceEnv (oneGame (exampleJoined n)) lockGranted) 2 ''g1'' (ledger (runJoin n))"

definition runMove :: "(MoveResult \<times> GameState) run" where
  "runMove =
     processMove (sourceEnv (oneGame (exampleStarted 2)) lockGranted) 3 ''m1'' ''g1'' ''alice''
       exampleInput (ledger (runStart 2))"

text \<open>Bob's answering strike, on the match as alice's strike left it.\<close>

definition exampleMove2 :: GameMove where
  "exampleMove2 =
     \<lparr>moveId = ''m2'', gameId = ''g1'', playerId = ''bob'', moveNumber = 2, moveType = STRIKE,
      moveData = \<lparr>strikerPosition = \<lparr>x = 250, y = 400\<rparr>, targetCoins = [], force = 50,
                  angle = 90, result = SUCCESS\<rparr>,
      timestamp = 4\<rparr>"

definition exampleMoved2 :: Game where
  "exampleMoved2 =
     exampleMoved\<lparr>moves := [exampleMove, exampleMove2],
        gameState := (gameState exampleMoved)\<lparr>currentPlayer := ''alice''\<rparr>\<rparr>"

definition runMove2 :: "(MoveResult \<times> GameState) run" where
  "runMove2 =
     processMove (sourceEnv (oneGame exampleMoved) lockGranted) 4 ''m2'' ''g1'' ''bob''
       exampleInput (ledger runMove)"

text \<open>
  A strike of bob's that is processed at the same time as alice's first strike: it reads
  the started match from the database before alice's move has been written back, and
  writes its own result after alice's.
\<close>

definition exampleMoveBob :: GameMove where
  "exampleMoveBob =
     \<lparr>moveId = ''m2'', gameId = ''g1'', playerId = ''bob'', moveNumber = 1, moveType = STRIKE,
      moveData = \<lparr>strikerPosition = \<lparr>x = 250, y = 400\<rparr>, targetCoins = [], force = 50,
                  angle = 90, result = SUCCESS\<rparr>,
      timestamp = 3\<rparr>"

definition exampleMovedBob :: Game where
  "exampleMovedBob =
     (exampleStarted 2)\<lparr>moves := [exampleMoveBob],
        gameState := (gameState (exampleStarted 2))\<lparr>currentPlayer := ''alice''\<rparr>\<rparr>"

definition runMoveBob :: "(MoveResult \<times> GameState) run" where
  "runMoveBob =
     processMove (sourceEnv (oneGame (exampleStarted 2)) lockGranted) 3 ''m2'' ''g1'' ''bob''
       exampleInput (ledger runMove)"

text \<open>
  The strike again, with a win check that finds alice the winner on every move. The first
  run finishes the match; the second is a further move on the finished match.
\<close>

definition winEnv :: "(string \<Rightarrow> Game option) \<Rightarrow> Env" where
  "winEnv db = (sourceEnv db lockGranted)\<lparr>checkWinCondition := (\<lambda>state ps. (True, ''alice''))\<rparr>"

definition exampleWon :: Game where
  "exampleWon =
     (exampleStarted 2)\<lparr>status := FINISHED, winner := Some ''alice'', endTime := Some 3,
        moves := [exampleMove],
        gameState := (gameState (exampleStarted 2))\<lparr>gamePhase := PHASE_FINISHED\<rparr>\<rparr>"

definition runWin :: "(MoveResult \<times> GameState) run" where
  "runWin =
     processMove (winEnv (oneGame (exampleStarted 2))) 3 ''m1'' ''g1'' ''alice'' exampleInput []"

definition runWinAgain :: "(MoveResult \<times> GameState) run" where
  "runWinAgain =
     processMove (winEnv (oneGame exampleWon)) 4 ''m2'' ''g1'' ''bob'' exampleInput
       (ledger runWin)"

text \<open>The same join with a wallet that refuses the lock.\<close>

definition runJoinRefused :: "Game run" where
  "runJoinRefused =
     joinGame (sourceEnv (oneGame (exampleCreated 2)) lockRefused) 1 ''g1'' ''bob''
       (ledger (runCreate 2))"

text \<open>A stake that is a double but not an integer: the double written
  \<open>13.333333333333332\<close>.\<close>

definition fractionalStake :: real where
  "fractionalStake = 3752999689475413 / 281474976710656"

text \<open>alice creates a match of capacity 3 with that stake.\<close>

definition exampleFractional :: Game where
  "exampleFractional = (exampleCreated 3)\<lparr>stakeAmount := fractionalStake, prizePool := 38\<rparr>"

definition runCreateFractional :: "Game run" where
  "runCreateFractional =
     createGame (sourceEnv noGames lockGranted) 0 ''room1'' ''g1''
       (exampleData fractionalStake 3) []"

text \<open>A move of the history given to the fraud scorer, made at time \<open>t\<close>.\<close>

definition moveAt :: "int \<Rightarrow> GameMove" where
  "moveAt t =
     \<lparr>moveId = ''m'', gameId = ''g1'', playerId = ''alice'', moveNumber = 1, moveType = STRIKE,
      moveData = \<lparr>strikerPosition = \<lparr>x = 250, y = 400\<rparr>, targetCoins = [], force = 50,
                  angle = 90, result = SUCCESS\<rparr>,
      timestamp = t\<rparr>"

text \<open>Ten moves whose nine intervals are 300, 300, 320, 320 and five times 325 ms.\<close>

definition unevenHistory :: "GameMove list" where
  "unevenHistory = map moveAt [0, 300, 600, 920, 1240, 1565, 1890, 2215, 2540, 2865]"

section \<open>Properties\<close>

subsection \<open>Double-precision arithmetic\<close>

text \<open>Concrete roundings are computed by unfolding; a whole number below \<open>2^53\<close> in
  magnitude is a double and is left as it is.\<close>

lemmas rnd_eval = rnd_def bexp_def pow2_def roundHalfEven_def bits.simps Let_def

lemma bits_bounds: "0 < n \<Longrightarrow> 2 ^ (bits n - 1) \<le> n \<and> n < 2 ^ bits n"
proof (induction n rule: bits.induct)
  case (1 n)
  show ?case
  proof (cases "n div 2 = 0")
    case True
    with "1.prems" have "n = 1" by presburger
    then show ?thesis by (simp add: bits.simps)
  next
    case False
    then have pos: "0 < n div 2" by simp
    from "1.prems" have n0: "n \<noteq> 0" by simp
    from "1.IH" [OF n0 pos]
    have ih: "2 ^ (bits (n div 2) - 1) \<le> n div 2" "n div 2 < 2 ^ bits (n div 2)" by simp_all
    have b: "bits n = Suc (bits (n div 2))" using n0 by (subst bits.simps) simp
    have bp: "0 < bits (n div 2)" using pos by (subst bits.simps) simp
    have "2 ^ bits (n div 2) \<le> n"
    proof -
      have "2 * 2 ^ (bits (n div 2) - 1) \<le> 2 * (n div 2)" using ih(1) by simp
      moreover have "2 * 2 ^ (bits (n div 2) - 1) = (2::nat) ^ bits (n div 2)"
        using bp by (cases "bits (n div 2)") simp_all
      ultimately show ?thesis by linarith
    qed
    moreover have "n < 2 * 2 ^ bits (n div 2)" using ih(2) by linarith
    ultimately show ?thesis by (simp add: b)
  qed
qed

lemma roundHalfEven_of_int [simp]: "roundHalfEven (of_int k) = k"
  by (simp add: roundHalfEven_def)

lemma rnd_of_int:
  assumes "\<bar>k\<bar> < 2 ^ 53"
  shows "rnd (of_int k) = of_int k"
proof (cases "k = 0")
  case True
  then show ?thesis by (simp add: rnd_def)
next
  case False
  define n where "n = nat \<bar>k\<bar>"
  have n: "0 < n" "int n = \<bar>k\<bar>" using False by (simp_all add: n_def)
  define b where "b = bits n"
  from bits_bounds [OF n(1)] have bb: "2 ^ (b - 1) \<le> n" "n < 2 ^ b" by (simp_all add: b_def)
  have bpos: "0 < b" using n(1) unfolding b_def by (subst bits.simps) simp
  have "(2::nat) ^ (b - 1) < 2 ^ 53"
  proof -
    have "int (2 ^ (b - 1)) \<le> int n" using bb(1) by simp
    also have "\<dots> < 2 ^ 53" using assms n(2) by simp
    finally show ?thesis by (metis of_nat_less_iff of_nat_numeral of_nat_power)
  qed
  then have b53: "b - 1 < 53"
    using power_less_imp_less_exp [of 2 "b - 1" 53] by fastforce
  have "1 \<le> \<bar>k\<bar>" using False by linarith
  then have one: "1 \<le> \<bar>real_of_int k\<bar>"
    by (metis of_int_1_le_iff of_int_abs)
  have "\<bar>real_of_int k\<bar> = real_of_int \<bar>k\<bar>" by simp
  then have fl: "nat \<lfloor>\<bar>real_of_int k\<bar>\<rfloor> = n"
    by (simp only: floor_of_int n_def)
  have be: "bexp \<bar>real_of_int k\<bar> = int b - 1"
    using one by (simp add: bexp_def fl b_def)
  have mx: "max (int b - 1 - 52) (- 1074) = - int (53 - b)"
    using b53 bpos by simp
  have q: "pow2 (- int (53 - b)) = 1 / 2 ^ (53 - b)"
  proof -
    have "nat (int (53 - b)) = 53 - b" by simp
    then show ?thesis unfolding pow2_def by (cases "53 - b = 0") simp_all
  qed
  have "real_of_int k / (1 / 2 ^ (53 - b)) = of_int (k * 2 ^ (53 - b))" by simp
  then have rh: "roundHalfEven (real_of_int k / (1 / 2 ^ (53 - b))) = k * 2 ^ (53 - b)"
    by (metis roundHalfEven_of_int)
  have k0: "real_of_int k \<noteq> 0" using False by simp
  have "rnd (real_of_int k) =
          real_of_int (roundHalfEven (real_of_int k / pow2 (max (bexp \<bar>real_of_int k\<bar> - 52) (- 1074))))
            * pow2 (max (bexp \<bar>real_of_int k\<bar> - 52) (- 1074))"
    unfolding rnd_def Let_def using k0 by (rule if_not_P)
  also have "\<dots> = real_of_int (k * 2 ^ (53 - b)) * (1 / 2 ^ (53 - b))"
    unfolding be mx q rh ..
  also have "\<dots> = real_of_int k" by simp
  finally show ?thesis .
qed

lemma rnd_zero [simp]: "rnd 0 = 0"
  by (simp add: rnd_def)

subsection \<open>Turn order\<close>

lemma findIndex_absent: "(\<forall>a\<in>set as. \<not> P a) \<Longrightarrow> findIndex P as = - 1"
  by (induction as) (auto simp: Let_def)

lemma findIndex_present:
  "\<exists>a\<in>set as. P a \<Longrightarrow>
     \<exists>k<length as. findIndex P as = int k \<and> P (as ! k) \<and> (\<forall>j<k. \<not> P (as ! j))"
proof (induction as)
  case Nil
  then show ?case by simp
next
  case (Cons a as)
  show ?case
  proof (cases "P a")
    case True
    then show ?thesis by auto
  next
    case False
    with Cons.prems have "\<exists>a\<in>set as. P a" by auto
    from Cons.IH [OF this] obtain k where k: "k < length as" "findIndex P as = int k"
      "P (as ! k)" "\<forall>j<k. \<not> P (as ! j)" by blast
    have "\<forall>j<Suc k. \<not> P ((a # as) ! j)"
      using False k(4) by (auto simp: nth_Cons split: nat.splits)
    with k False show ?thesis
      by (intro exI [of _ "Suc k"]) (auto simp: Let_def)
  qed
qed

lemma getNextPlayer_defined: "ps \<noteq> [] \<Longrightarrow> \<exists>next. getNextPlayer ps cur = Inr next"
  by (simp add: getNextPlayer_def Let_def)

text \<open>
  Claim C10. On a non-empty player list \<open>getNextPlayer\<close> never throws and returns the
  user at an index inside the list: the index after the first occurrence of the current
  player, modulo the length of the list, and index 0 when the current player is not in
  the list at all.
\<close>

theorem getNextPlayer_total:
  assumes "ps \<noteq> []"
  shows "\<exists>i<length ps. getNextPlayer ps cur = Inr (userId (ps ! i)) \<and>
           (if cur \<in> userId ` set ps
            then \<exists>k<length ps. userId (ps ! k) = cur \<and> (\<forall>j<k. userId (ps ! j) \<noteq> cur)
                   \<and> i = (k + 1) mod length ps
            else i = 0)"
proof (cases "cur \<in> userId ` set ps")
  case False
  then have "findIndex (\<lambda>p. userId p = cur) ps = - 1"
    by (intro findIndex_absent) auto
  with assms False show ?thesis
    by (intro exI [of _ 0]) (simp add: getNextPlayer_def)
next
  case True
  then have "\<exists>a\<in>set ps. userId a = cur" by auto
  from findIndex_present [of ps "\<lambda>p. userId p = cur", OF this]
  obtain k where k: "k < length ps" "findIndex (\<lambda>p. userId p = cur) ps = int k"
    "userId (ps ! k) = cur" "\<forall>j<k. userId (ps ! j) \<noteq> cur" by blast
  have "nat ((int k + 1) mod int (length ps)) = (k + 1) mod length ps"
    by (metis nat_int of_nat_1 of_nat_add zmod_int)
  moreover have "(k + 1) mod length ps < length ps"
    using assms by simp
  ultimately show ?thesis
    using assms True k by (intro exI [of _ "(k + 1) mod length ps"]) (auto simp: getNextPlayer_def)
qed

text \<open>Witness for C10: with players alice and bob, alice is followed by bob, bob by alice,
  and an unknown player by alice.\<close>

theorem getNextPlayer_total_witness:
  "[createGamePlayer ''alice'' ''HOST'' 0, createGamePlayer ''bob'' ''PLAYER'' 0] \<noteq> []
   \<and> getNextPlayer [createGamePlayer ''alice'' ''HOST'' 0, createGamePlayer ''bob'' ''PLAYER'' 0]
         ''alice'' = Inr ''bob''
   \<and> getNextPlayer [createGamePlayer ''alice'' ''HOST'' 0, createGamePlayer ''bob'' ''PLAYER'' 0]
         ''bob'' = Inr ''alice''
   \<and> getNextPlayer [createGamePlayer ''alice'' ''HOST'' 0, createGamePlayer ''bob'' ''PLAYER'' 0]
         ''carol'' = Inr ''alice''"
  using getNextPlayer_total
    [of "[createGamePlayer ''alice'' ''HOST'' 0, createGamePlayer ''bob'' ''PLAYER'' 0]" "''alice''"]
  by (simp add: getNextPlayer_def createGamePlayer_def)

subsection \<open>Coin assignment\<close>

lemma whiteCoins_eq:
  "whiteCoins = [''white_1'', ''white_2'', ''white_3'', ''white_4'', ''white_5'',
                 ''white_6'', ''white_7'', ''white_8'', ''white_9'']"
proof -
  have "[0..<9::nat] = [0, 1, 2, 3, 4, 5, 6, 7, 8]" by code_simp
  then show ?thesis by (simp add: whiteCoins_def decimal.simps)
qed

lemma blackCoins_eq:
  "blackCoins = [''black_1'', ''black_2'', ''black_3'', ''black_4'', ''black_5'',
                 ''black_6'', ''black_7'', ''black_8'', ''black_9'']"
proof -
  have "[0..<9::nat] = [0, 1, 2, 3, 4, 5, 6, 7, 8]" by code_simp
  then show ?thesis by (simp add: blackCoins_def decimal.simps)
qed

lemma length_assignCoins [simp]: "length (assignCoinsToPlayers ps) = length ps"
  by (simp add: assignCoinsToPlayers_def)

lemma nth_assignCoins:
  "i < length ps \<Longrightarrow>
     assignCoinsToPlayers ps ! i = (ps ! i)\<lparr>coins := (if even i then whiteCoins else blackCoins)\<rparr>"
  by (simp add: assignCoinsToPlayers_def even_iff_mod_2_eq_zero)

lemma first_after_assignCoins:
  assumes "ps \<noteq> []"
  shows "determineFirstPlayer (assignCoinsToPlayers ps) = Inr (userId (ps ! 0))"
proof -
  from assms have l: "0 < length ps" by simp
  then obtain q qs where q: "assignCoinsToPlayers ps = q # qs"
    by (cases "assignCoinsToPlayers ps") (auto dest: arg_cong [where f = length])
  then have "q = assignCoinsToPlayers ps ! 0" by simp
  with l have "userId q = userId (ps ! 0)" by (simp add: nth_assignCoins)
  with q show ?thesis by (simp add: determineFirstPlayer_def)
qed

text \<open>
  Claim C9. \<open>assignCoinsToPlayers\<close> keeps the players and their order; the player at every
  even index holds exactly \<open>white_1\<close> to \<open>white_9\<close>, the player at every odd index
  exactly \<open>black_1\<close> to \<open>black_9\<close>, so every player holds nine coins; and the first turn
  goes to the player at index 0, the host.
\<close>

theorem assignCoins_symmetric:
  "length (assignCoinsToPlayers ps) = length ps \<and>
   (\<forall>i<length ps.
      coins (assignCoinsToPlayers ps ! i) =
        (if even i
         then [''white_1'', ''white_2'', ''white_3'', ''white_4'', ''white_5'',
               ''white_6'', ''white_7'', ''white_8'', ''white_9'']
         else [''black_1'', ''black_2'', ''black_3'', ''black_4'', ''black_5'',
               ''black_6'', ''black_7'', ''black_8'', ''black_9''])
      \<and> length (coins (assignCoinsToPlayers ps ! i)) = 9
      \<and> userId (assignCoinsToPlayers ps ! i) = userId (ps ! i))
   \<and> (ps \<noteq> [] \<longrightarrow> determineFirstPlayer (assignCoinsToPlayers ps) = Inr (userId (ps ! 0)))"
  by (simp add: nth_assignCoins whiteCoins_eq blackCoins_eq first_after_assignCoins)

text \<open>Witness for C9: host alice gets the white coins, joiner bob the black ones, and alice
  moves first.\<close>

theorem assignCoins_symmetric_witness:
  "coins (assignCoinsToPlayers
      [createGamePlayer ''alice'' ''HOST'' 0, createGamePlayer ''bob'' ''PLAYER'' 0] ! 0) =
     [''white_1'', ''white_2'', ''white_3'', ''white_4'', ''white_5'',
      ''white_6'', ''white_7'', ''white_8'', ''white_9'']
   \<and> coins (assignCoinsToPlayers
      [createGamePlayer ''alice'' ''HOST'' 0, createGamePlayer ''bob'' ''PLAYER'' 0] ! 1) =
     [''black_1'', ''black_2'', ''black_3'', ''black_4'', ''black_5'',
      ''black_6'', ''black_7'', ''black_8'', ''black_9'']
   \<and> determineFirstPlayer (assignCoinsToPlayers
      [createGamePlayer ''alice'' ''HOST'' 0, createGamePlayer ''bob'' ''PLAYER'' 0]) = Inr ''alice''"
  using assignCoins_symmetric
    [of "[createGamePlayer ''alice'' ''HOST'' 0, createGamePlayer ''bob'' ''PLAYER'' 0]"]
  by (simp add: createGamePlayer_def)

subsection \<open>Stake validation\<close>

lemma validateGameCreation_Inr:
  "validateGameCreation d = Inr v \<Longrightarrow>
     v = d \<and> 10 \<le> stakeAmount_in d \<and> stakeAmount_in d \<le> 2000
       \<and> 2 \<le> maxPlayers d \<and> maxPlayers d \<le> 4 \<and> hostId d \<noteq> []"
  by (auto simp: validateGameCreation_def schemaIssues_def split: if_splits)

text \<open>
  Claim C8. \<open>validateStakeAmount\<close> accepts exactly the amounts from 10 to 2000, both ends
  included, and so rejects 9 and 2001. The creation schema accepts a request whose stake
  is in that interval (its other fields being valid) and answers every stake outside it
  with a validation error naming the stake field; \<open>createGame\<close> then throws, with no game
  object and the ledger untouched.
\<close>

theorem stake_bounds:
  "(validateStakeAmount amount \<longleftrightarrow> 10 \<le> amount \<and> amount \<le> 2000)
   \<and> validateStakeAmount 10 \<and> validateStakeAmount 2000
   \<and> \<not> validateStakeAmount 9 \<and> \<not> validateStakeAmount 2001
   \<and> (10 \<le> stakeAmount_in d \<and> stakeAmount_in d \<le> 2000 \<and> hostId d \<noteq> []
        \<and> 2 \<le> maxPlayers d \<and> maxPlayers d \<le> 4 \<and> 5 \<le> timeLimit d \<and> timeLimit d \<le> 30
      \<longrightarrow> validateGameCreation d = Inr d)
   \<and> (\<not> (10 \<le> stakeAmount_in d \<and> stakeAmount_in d \<le> 2000)
      \<longrightarrow> (\<exists>fs. ''stakeAmount'' \<in> set fs
                \<and> validateGameCreation d = Inl (ZodError fs)
                \<and> createGame env now rid gid d l =
                    \<lparr>outcome = Inl (ErrorFrom ''Game creation failed: '' (ZodError fs)),
                     object = None, ledger = l\<rparr>))"
  by (auto simp: validateStakeAmount_def validateGameCreation_def schemaIssues_def Suc_le_eq
      createGame_def fail_def)

text \<open>Witness for C8: stakes 10 and 2000 pass the schema, stakes 9 and 2001 fail it on the
  stake field alone.\<close>

theorem stake_bounds_witness:
  "validateGameCreation (exampleData 10 2) = Inr (exampleData 10 2)
   \<and> validateGameCreation (exampleData 2000 2) = Inr (exampleData 2000 2)
   \<and> validateGameCreation (exampleData 9 2) = Inl (ZodError [''stakeAmount''])
   \<and> validateGameCreation (exampleData 2001 2) = Inl (ZodError [''stakeAmount''])"
proof -
  have "validateGameCreation (exampleData 10 2) = Inr (exampleData 10 2)"
    using stake_bounds [of 10 "exampleData 10 2"] by (simp add: exampleData_def)
  moreover have "validateGameCreation (exampleData 2000 2) = Inr (exampleData 2000 2)"
    using stake_bounds [of 10 "exampleData 2000 2"] by (simp add: exampleData_def)
  moreover have "validateGameCreation (exampleData 9 2) = Inl (ZodError [''stakeAmount''])"
    using stake_bounds [of 10 "exampleData 9 2"]
    by (simp add: exampleData_def validateGameCreation_def schemaIssues_def)
  moreover have "validateGameCreation (exampleData 2001 2) = Inl (ZodError [''stakeAmount''])"
    using stake_bounds [of 10 "exampleData 2001 2"]
    by (simp add: exampleData_def validateGameCreation_def schemaIssues_def)
  ultimately show ?thesis by simp
qed

subsection \<open>Fraud flagging\<close>

text \<open>
  Claim C6, as the code has it. A score above 75 raises a HIGH alert (action INVESTIGATE)
  and temporarily restricts the user for suspected fraud; a score above 50 and at most 75
  raises a MEDIUM alert (action MONITOR) and nothing else; a score of at most 50 does
  nothing. The function neither forfeits a player nor touches a match.
\<close>

theorem flag_policy:
  "(75 < s \<longrightarrow> flagSuspiciousActivity u s g =
       [CreateFraudAlert u g s HIGH INVESTIGATE ''Suspicious gameplay patterns detected'',
        TemporaryRestriction u ''SUSPECTED_FRAUD''])
   \<and> (50 < s \<and> s \<le> 75 \<longrightarrow> flagSuspiciousActivity u s g =
       [CreateFraudAlert u g s MEDIUM MONITOR ''Unusual gameplay patterns detected''])
   \<and> (s \<le> 50 \<longrightarrow> flagSuspiciousActivity u s g = [])"
  by (simp add: flagSuspiciousActivity_def)

text \<open>Witness for C6: the scores 76, 75 and 50.\<close>

theorem flag_policy_witness:
  "flagSuspiciousActivity ''u1'' 76 ''g1'' =
       [CreateFraudAlert ''u1'' ''g1'' 76 HIGH INVESTIGATE ''Suspicious gameplay patterns detected'',
        TemporaryRestriction ''u1'' ''SUSPECTED_FRAUD'']
   \<and> flagSuspiciousActivity ''u1'' 75 ''g1'' =
       [CreateFraudAlert ''u1'' ''g1'' 75 MEDIUM MONITOR ''Unusual gameplay patterns detected'']
   \<and> flagSuspiciousActivity ''u1'' 50 ''g1'' = []"
  using flag_policy [of 76 "''u1''" "''g1''"] flag_policy [of 75 "''u1''" "''g1''"]
    flag_policy [of 50 "''u1''" "''g1''"]
  by simp

text \<open>Counterexample for C6 as stated: at score 80 everything the function does is an
  alert and a temporary restriction of the account; no forfeit is among its actions.\<close>

theorem flag_no_forfeit_counterexample:
  "flagSuspiciousActivity ''u1'' 80 ''g1'' =
       [CreateFraudAlert ''u1'' ''g1'' 80 HIGH INVESTIGATE ''Suspicious gameplay patterns detected'',
        TemporaryRestriction ''u1'' ''SUSPECTED_FRAUD'']"
  by (simp add: flagSuspiciousActivity_def)

subsection \<open>Timing regularity\<close>

lemma length_sliceLast [simp]: "length (sliceLast n as) = min n (length as)"
  by (simp add: sliceLast_def)

lemma length_intervalsOf [simp]: "length (intervalsOf ms) = length ms - 1"
  by (simp add: intervalsOf_def)

text \<open>Moves that are evenly spaced by a whole number of milliseconds: every interval is
  that number, the sum of the intervals and the mean are computed without rounding
  error, and the variance is 0.\<close>

lemma constant_intervals:
  assumes "\<forall>i. Suc i < length w \<longrightarrow> timestamp (w ! Suc i) - timestamp (w ! i) = c"
    and "\<bar>c\<bar> < 2 ^ 53"
  shows "intervalsOf w = replicate (length w - 1) (real_of_int c)"
proof (rule nth_equalityI)
  show "length (intervalsOf w) = length (replicate (length w - 1) (real_of_int c))" by simp
next
  fix k assume "k < length (intervalsOf w)"
  then have k: "Suc k < length w" by simp
  then have u: "[1..<length w] ! k = Suc k" by simp
  have kl: "k < length [1..<length w]" using k by simp
  have "intervalsOf w ! k =
      rnd (real_of_int (timestamp (w ! ([1..<length w] ! k)))
           - real_of_int (timestamp (w ! ([1..<length w] ! k - 1))))"
    unfolding intervalsOf_def by (simp only: nth_map [OF kl])
  also have "\<dots> = rnd (real_of_int (timestamp (w ! Suc k)) - real_of_int (timestamp (w ! k)))"
    by (simp only: u diff_Suc_1)
  also have "\<dots> = rnd (real_of_int (timestamp (w ! Suc k) - timestamp (w ! k)))" by simp
  also have "\<dots> = rnd (real_of_int c)" using assms(1) k by simp
  also have "\<dots> = real_of_int c" using assms(2) by (rule rnd_of_int)
  finally show "intervalsOf w ! k = replicate (length w - 1) (real_of_int c) ! k"
    using k by simp
qed

lemma constant_sum:
  assumes "real k * \<bar>real_of_int c\<bar> < 2 ^ 53"
  shows "foldl (\<lambda>a b. rnd (a + b)) 0 (replicate k (real_of_int c)) = real_of_int (int k * c)"
  using assms
proof (induction k)
  case 0
  then show ?case by simp
next
  case (Suc k)
  have le: "real k * \<bar>real_of_int c\<bar> \<le> real (Suc k) * \<bar>real_of_int c\<bar>"
    by (intro mult_right_mono) simp_all
  with Suc.prems have "real k * \<bar>real_of_int c\<bar> < 2 ^ 53" by linarith
  from Suc.IH [OF this]
  have ih: "foldl (\<lambda>a b. rnd (a + b)) 0 (replicate k (real_of_int c)) = real_of_int (int k * c)" .
  have "\<bar>real_of_int (int (Suc k) * c)\<bar> < 2 ^ 53"
    using Suc.prems by (simp add: abs_mult)
  then have "\<bar>int (Suc k) * c\<bar> < 2 ^ 53"
    by (metis of_int_abs of_int_less_iff of_int_numeral of_int_power)
  then have r0: "rnd (real_of_int (int (Suc k) * c)) = real_of_int (int (Suc k) * c)"
    by (rule rnd_of_int)
  have e: "real_of_int (int k * c) + real_of_int c = real_of_int (int (Suc k) * c)"
    by (simp add: algebra_simps)
  have rep: "replicate (Suc k) (real_of_int c) = replicate k (real_of_int c) @ [real_of_int c]"
    by (simp add: replicate_append_same)
  have "foldl (\<lambda>a b. rnd (a + b)) 0 (replicate (Suc k) (real_of_int c))
          = rnd (foldl (\<lambda>a b. rnd (a + b)) 0 (replicate k (real_of_int c)) + real_of_int c)"
    by (simp only: rep foldl_append foldl.simps)
  also have "\<dots> = rnd (real_of_int (int (Suc k) * c))"
    by (simp only: ih e)
  also have "\<dots> = real_of_int (int (Suc k) * c)"
    by (rule r0)
  finally show ?case .
qed

lemma constant_squares:
  "foldl (\<lambda>acc interval. rnd (acc + rnd (rnd (interval - a) * rnd (interval - a)))) 0
     (replicate k a) = 0"
  by (induction k) simp_all

lemma constant_stats:
  assumes "0 < k" "k \<le> 16" "\<bar>c\<bar> < 2 ^ 49"
  shows "avgOf (replicate k (real_of_int c)) = real_of_int c"
    and "varianceOf (replicate k (real_of_int c)) = 0"
proof -
  have "\<bar>real_of_int c\<bar> < 2 ^ 49" using assms(3)
    by (metis of_int_abs of_int_less_iff of_int_numeral of_int_power)
  then have "16 * \<bar>real_of_int c\<bar> < 2 ^ 53" by simp
  moreover have "real k * \<bar>real_of_int c\<bar> \<le> 16 * \<bar>real_of_int c\<bar>"
    using assms(2) by (intro mult_right_mono) simp_all
  ultimately have "real k * \<bar>real_of_int c\<bar> < 2 ^ 53" by linarith
  then have s: "foldl (\<lambda>a b. rnd (a + b)) 0 (replicate k (real_of_int c)) = real_of_int (int k * c)"
    by (rule constant_sum)
  have c53: "\<bar>c\<bar> < 2 ^ 53" using assms(3) by simp
  have "real_of_int (int k * c) / real k = real_of_int c" using assms(1) by simp
  then show a: "avgOf (replicate k (real_of_int c)) = real_of_int c"
    by (simp add: avgOf_def s rnd_of_int [OF c53])
  show "varianceOf (replicate k (real_of_int c)) = 0"
    unfolding varianceOf_def a constant_squares by simp
qed

lemma evenly_spaced:
  assumes "3 \<le> length history"
    and "\<forall>i. Suc i < length (sliceLast 10 history) \<longrightarrow>
           timestamp (sliceLast 10 history ! Suc i) - timestamp (sliceLast 10 history ! i) = c"
    and "0 \<le> c" "c < 2000"
  shows "analyzeTimingPatterns m history = 40"
proof -
  let ?w = "sliceLast 10 history"
  have l: "3 \<le> length ?w" "length ?w \<le> 10" using assms(1) by simp_all
  have c49: "\<bar>c\<bar> < 2 ^ 49" using assms(3,4) by simp
  then have c53: "\<bar>c\<bar> < 2 ^ 53" by simp
  have i: "intervalsOf ?w = replicate (length ?w - 1) (real_of_int c)"
    using assms(2) c53 by (rule constant_intervals)
  have k: "0 < length ?w - 1" "length ?w - 1 \<le> 16" using l by simp_all
  from constant_stats [OF k c49]
  have "avgOf (intervalsOf ?w) = real_of_int c" "varianceOf (intervalsOf ?w) = 0"
    by (simp_all only: i)
  moreover have "real_of_int c < 2000" using assms(4) by simp
  ultimately show ?thesis
    using l(1) by (simp add: analyzeTimingPatterns_def Let_def del: length_sliceLast)
qed

text \<open>The example histories.\<close>

lemma upt_1_3: "[1..<3] = [1, 2::nat]"
  by code_simp

lemma upt_1_4: "[1..<4] = [1, 2, 3::nat]"
  by code_simp

lemma upt_1_10: "[1..<10] = [1, 2, 3, 4, 5, 6, 7, 8, 9::nat]"
  by code_simp

lemma intervals_three:
  "intervalsOf (sliceLast 10 [moveAt 0, moveAt 300, moveAt 600]) = [300, 300]"
  by (simp add: intervalsOf_def sliceLast_def moveAt_def upt_1_3) (simp add: rnd_eval)

lemma intervals_four:
  "intervalsOf (sliceLast 10 [moveAt 0, moveAt 300, moveAt 600, moveAt 900]) = [300, 300, 300]"
  by (simp add: intervalsOf_def sliceLast_def moveAt_def upt_1_4) (simp add: rnd_eval)

lemma intervals_uneven:
  "intervalsOf (sliceLast 10 [moveAt 0, moveAt 100, moveAt 600]) = [100, 500]"
  by (simp add: intervalsOf_def sliceLast_def moveAt_def upt_1_3) (simp add: rnd_eval)

lemma avg_300_2: "avgOf [300, 300] = 300"
  by (simp add: avgOf_def) (simp add: rnd_eval)

lemma avg_var_300_2: "avgOf [300, 300] = 300 \<and> varianceOf [300, 300] = 0"
  by (simp add: varianceOf_def avg_300_2)

lemma avg_300_3: "avgOf [300, 300, 300] = 300"
  by (simp add: avgOf_def) (simp add: rnd_eval)

lemma avg_var_300_3: "avgOf [300, 300, 300] = 300 \<and> varianceOf [300, 300, 300] = 0"
  by (simp add: varianceOf_def avg_300_3)

lemma avg_uneven: "avgOf [100, 500] = 300"
  by (simp add: avgOf_def) (simp add: rnd_eval)

lemma avg_var_uneven: "avgOf [100, 500] = 300 \<and> varianceOf [100, 500] = 40000"
  by (simp add: varianceOf_def avg_uneven) (simp add: rnd_eval)

lemma intervals_slow:
  "intervalsOf (sliceLast 10 [moveAt 0, moveAt 1000, moveAt 4000]) = [1000, 3000]"
  by (simp add: intervalsOf_def sliceLast_def moveAt_def upt_1_3) (simp add: rnd_eval)

lemma avg_slow: "avgOf [1000, 3000] = 2000"
  by (simp add: avgOf_def) (simp add: rnd_eval)

lemma avg_var_slow: "avgOf [1000, 3000] = 2000 \<and> varianceOf [1000, 3000] = 1000000"
  by (simp add: varianceOf_def avg_slow) (simp add: rnd_eval)

text \<open>
  Rounding decides the result on the history with intervals 300, 300, 320, 320 and five
  times 325 ms: the variance of these numbers is exactly 100, but the mean 2865/9 is
  not a double, and the variance the code computes is the double just below 100.
\<close>

lemma intervals_unevenHistory:
  "intervalsOf (sliceLast 10 unevenHistory) = [300, 300, 320, 320, 325, 325, 325, 325, 325]"
  by (simp add: intervalsOf_def sliceLast_def unevenHistory_def moveAt_def upt_1_10)
    (simp add: rnd_eval)

lemma avg_unevenHistory:
  "avgOf [300, 300, 320, 320, 325, 325, 325, 325, 325] = 5600179224139093 / 17592186044416"
  by (simp add: avgOf_def) (simp add: rnd_eval)

lemma variance_unevenHistory:
  "varianceOf [300, 300, 320, 320, 325, 325, 325, 325, 325]
     = 7036874417766399 / 70368744177664"
  unfolding varianceOf_def avg_unevenHistory by (simp add: rnd_eval)

lemma timing_unevenHistory: "analyzeTimingPatterns m unevenHistory = 40"
  by (simp add: analyzeTimingPatterns_def Let_def intervals_unevenHistory avg_unevenHistory
      variance_unevenHistory del: length_intervalsOf)
    (simp add: unevenHistory_def)

text \<open>
  Claim C7, as the code has it. The intervals are taken over the last ten moves of the
  history, so there is one interval fewer than moves in the window. The component is 0
  when the history has fewer than three moves (fewer than two intervals); otherwise it
  is 40 when the variance is below 100 and the mean below 2000 ms; otherwise 60 when the
  mean is below 500 ms; otherwise 0. Mean and variance are the doubles the code computes.
  The 40-point test comes first, so a mean below 500 ms yields 60 only when the variance
  is at least 100; in particular, three or more moves evenly spaced by a whole number of
  milliseconds below 2000 always yield 40, also when the spacing is below 500 ms.
\<close>

theorem timing_component:
  "length (intervalsOf (sliceLast 10 history)) = min 10 (length history) - 1
   \<and> analyzeTimingPatterns m history \<in> {0, 40, 60}
   \<and> (length history < 3 \<longrightarrow> analyzeTimingPatterns m history = 0)
   \<and> (3 \<le> length history
        \<and> varianceOf (intervalsOf (sliceLast 10 history)) < 100
        \<and> avgOf (intervalsOf (sliceLast 10 history)) < 2000
       \<longrightarrow> analyzeTimingPatterns m history = 40)
   \<and> (3 \<le> length history
        \<and> \<not> (varianceOf (intervalsOf (sliceLast 10 history)) < 100
              \<and> avgOf (intervalsOf (sliceLast 10 history)) < 2000)
        \<and> avgOf (intervalsOf (sliceLast 10 history)) < 500
       \<longrightarrow> analyzeTimingPatterns m history = 60)
   \<and> (3 \<le> length history
        \<and> \<not> (varianceOf (intervalsOf (sliceLast 10 history)) < 100
              \<and> avgOf (intervalsOf (sliceLast 10 history)) < 2000)
        \<and> \<not> avgOf (intervalsOf (sliceLast 10 history)) < 500
       \<longrightarrow> analyzeTimingPatterns m history = 0)
   \<and> (3 \<le> length history \<and> 0 \<le> c \<and> c < 2000
        \<and> (\<forall>i. Suc i < length (sliceLast 10 history) \<longrightarrow>
               timestamp (sliceLast 10 history ! Suc i) - timestamp (sliceLast 10 history ! i) = c)
       \<longrightarrow> analyzeTimingPatterns m history = 40)"
proof -
  have "analyzeTimingPatterns m history = 40"
    if "3 \<le> length history" "0 \<le> c" "c < 2000"
      "\<forall>i. Suc i < length (sliceLast 10 history) \<longrightarrow>
         timestamp (sliceLast 10 history ! Suc i) - timestamp (sliceLast 10 history ! i) = c"
    using evenly_spaced [OF that(1,4,2,3)] .
  then show ?thesis
    by (auto simp: analyzeTimingPatterns_def Let_def)
qed

text \<open>Witness for C7: two moves give 0; three moves 300 ms apart give 40 by their even
  spacing, and four such moves by the variance test; three moves with intervals 100 ms
  and 500 ms (mean 300 ms, variance 40000) give 60; three moves with intervals 1000 ms
  and 3000 ms (mean 2000 ms) give 0; the ten moves with intervals 300, 300, 320, 320 and
  five times 325 ms give 40, their computed variance being the double just below 100.\<close>

theorem timing_component_witness:
  "analyzeTimingPatterns (moveAt 600) [moveAt 0, moveAt 300] = 0
   \<and> analyzeTimingPatterns (moveAt 900) [moveAt 0, moveAt 300, moveAt 600] = 40
   \<and> analyzeTimingPatterns (moveAt 1200) [moveAt 0, moveAt 300, moveAt 600, moveAt 900] = 40
   \<and> analyzeTimingPatterns (moveAt 900) [moveAt 0, moveAt 100, moveAt 600] = 60
   \<and> analyzeTimingPatterns (moveAt 5000) [moveAt 0, moveAt 1000, moveAt 4000] = 0
   \<and> analyzeTimingPatterns (moveAt 3190) unevenHistory = 40"
proof -
  have "analyzeTimingPatterns (moveAt 600) [moveAt 0, moveAt 300] = 0"
    using timing_component [of "[moveAt 0, moveAt 300]" "moveAt 600"] by simp
  moreover have "analyzeTimingPatterns (moveAt 900) [moveAt 0, moveAt 300, moveAt 600] = 40"
  proof -
    have "\<forall>i. Suc i < length (sliceLast 10 [moveAt 0, moveAt 300, moveAt 600]) \<longrightarrow>
           timestamp (sliceLast 10 [moveAt 0, moveAt 300, moveAt 600] ! Suc i)
             - timestamp (sliceLast 10 [moveAt 0, moveAt 300, moveAt 600] ! i) = 300"
      by (auto simp: sliceLast_def moveAt_def less_Suc_eq numeral_3_eq_3)
    then show ?thesis
      using timing_component [of "[moveAt 0, moveAt 300, moveAt 600]" "moveAt 900" 300]
      by simp
  qed
  moreover have
    "analyzeTimingPatterns (moveAt 1200) [moveAt 0, moveAt 300, moveAt 600, moveAt 900] = 40"
    using timing_component [of "[moveAt 0, moveAt 300, moveAt 600, moveAt 900]" "moveAt 1200"]
    by (simp add: intervals_four avg_var_300_3 del: length_intervalsOf)
  moreover have "analyzeTimingPatterns (moveAt 900) [moveAt 0, moveAt 100, moveAt 600] = 60"
    using timing_component [of "[moveAt 0, moveAt 100, moveAt 600]" "moveAt 900"]
    by (simp add: intervals_uneven avg_var_uneven del: length_intervalsOf)
  moreover have "analyzeTimingPatterns (moveAt 5000) [moveAt 0, moveAt 1000, moveAt 4000] = 0"
    using timing_component [of "[moveAt 0, moveAt 1000, moveAt 4000]" "moveAt 5000"]
    by (simp add: intervals_slow avg_var_slow del: length_intervalsOf)
  moreover have "analyzeTimingPatterns (moveAt 3190) unevenHistory = 40"
  proof -
    have "length unevenHistory = 10"
      by (simp add: unevenHistory_def)
    then show ?thesis
      using timing_component [of unevenHistory "moveAt 3190"]
      by (simp add: intervals_unevenHistory avg_unevenHistory variance_unevenHistory
          del: length_intervalsOf)
  qed
  ultimately show ?thesis by blast
qed

text \<open>Counterexample for C7 as stated: three moves 300 ms apart give only two interval
  samples, yet the component is 40 and not 0; and four such moves have mean interval
  300 ms, below 500 ms, yet the component is 40 and not 60.\<close>

theorem timing_counterexample:
  "length (intervalsOf (sliceLast 10 [moveAt 0, moveAt 300, moveAt 600])) = 2
   \<and> analyzeTimingPatterns (moveAt 900) [moveAt 0, moveAt 300, moveAt 600] = 40
   \<and> avgOf (intervalsOf (sliceLast 10 [moveAt 0, moveAt 300, moveAt 600, moveAt 900])) = 300
   \<and> analyzeTimingPatterns (moveAt 1200) [moveAt 0, moveAt 300, moveAt 600, moveAt 900] = 40"
  by (simp add: analyzeTimingPatterns_def Let_def intervals_three intervals_four
      avg_var_300_2 avg_var_300_3 del: length_intervalsOf)

subsection \<open>What each operation does to the game object\<close>

lemma createGame_object:
  assumes "object (createGame env now rid gid d l) = Some g"
  shows "g = \<lparr>game_id = gid, roomId = rid, gameMode = gameMode_in d,
              players = [createGamePlayer (hostId d) ''HOST'' now],
              stakeAmount = stakeAmount_in d,
              prizePool = calculatePrizePool (stakeAmount_in d) (maxPlayers d),
              status = WAITING, gameState = createInitialGameState now,
              startTime = None, endTime = None, winner = None, moves = [], createdAt = now\<rparr>
         \<and> validateGameCreation d = Inr d"
proof (cases "validateGameCreation d")
  case (Inl e)
  with assms show ?thesis by (simp add: createGame_def fail_def)
next
  case (Inr v)
  then have v: "v = d" by (simp add: validateGameCreation_Inr)
  with Inr assms show ?thesis
    by (auto simp: createGame_def fail_def Let_def split: prod.splits if_splits option.splits)
qed

lemma createGame_fields:
  assumes "object (createGame env now rid gid d l) = Some g"
  shows "prizePool g = calculatePrizePool (stakeAmount_in d) (maxPlayers d)
         \<and> stakeAmount g = stakeAmount_in d \<and> status g = WAITING \<and> moves g = []"
  using createGame_object [OF assms] by simp

lemma joinGame_object:
  assumes "getGameById env gid = Some g" "object (joinGame env now gid pid l) = Some g'"
  shows "g' = g \<or> g' = g\<lparr>players := players g @ [createGamePlayer pid ''PLAYER'' now]\<rparr>"
  using assms
  by (auto simp: joinGame_def fail_def Let_def split: prod.splits if_splits option.splits)

lemma joinGame_fields:
  assumes "getGameById env gid = Some g" "object (joinGame env now gid pid l) = Some g'"
  shows "prizePool g' = prizePool g \<and> stakeAmount g' = stakeAmount g \<and> moves g' = moves g
         \<and> status g' = status g"
  using joinGame_object [OF assms] by auto

lemma startGame_object:
  assumes "getGameById env gid = Some g" "object (startGame env now gid l) = Some g'"
  shows "prizePool g' = prizePool g \<and> stakeAmount g' = stakeAmount g \<and> moves g' = moves g
         \<and> game_id g' = game_id g \<and> length (players g') = length (players g)
         \<and> (status g' = status g \<or> (status g' = IN_PROGRESS \<and> canStartGame g))"
  using assms
  by (auto simp: startGame_def fail_def Let_def
        split: prod.splits if_splits option.splits sum.splits)

lemma startGame_starts:
  assumes "getGameById env gid = Some g" "status g = WAITING" "2 \<le> length (players g)"
  shows "\<exists>g'. outcome (startGame env now gid l) = Inr g'
           \<and> object (startGame env now gid l) = Some g'
           \<and> status g' = IN_PROGRESS \<and> players g' = assignCoinsToPlayers (players g)"
proof -
  from assms(3) have "players g \<noteq> []" by auto
  then have "determineFirstPlayer (assignCoinsToPlayers (players g))
               = Inr (userId (players g ! 0))"
    by (rule first_after_assignCoins)
  with assms show ?thesis
    by (simp add: startGame_def canStartGame_def Let_def)
qed

lemma finishMove_object:
  "object (finishMove g st mv l) = Some (g\<lparr>moves := moves g @ [mv], gameState := st\<rparr>)"
  by (simp add: finishMove_def Let_def)

lemma processMove_object:
  assumes "getGameById env gid = Some g" "object (processMove env now mid gid pid m l) = Some g'"
  shows "players g' = players g \<and> prizePool g' = prizePool g \<and> stakeAmount g' = stakeAmount g
         \<and> game_id g' = game_id g
         \<and> (status g' = status g \<or> status g' = FINISHED)
         \<and> (moves g' = moves g \<or>
             (\<exists>mv. moves g' = moves g @ [mv] \<and> moveNumber mv = int (length (moves g)) + 1))"
  using assms
  by (auto simp: processMove_def fail_def Let_def finishMove_object
        split: prod.splits if_splits option.splits sum.splits)

lemma processMove_source_accepts:
  assumes "db gid = Some g" "players g \<noteq> []"
  shows "\<exists>res mv. outcome (processMove (sourceEnv db lock) now mid gid pid m l) = Inr res
           \<and> object (processMove (sourceEnv db lock) now mid gid pid m l)
               = Some (g\<lparr>moves := moves g @ [mv], gameState := snd res\<rparr>)
           \<and> ledger (processMove (sourceEnv db lock) now mid gid pid m l)
               = l @ [UpdateGame (g\<lparr>moves := moves g @ [mv], gameState := snd res\<rparr>),
                      LogGameMove mv (snd res)]
           \<and> moveNumber mv = int (length (moves g)) + 1
           \<and> playerId mv = pid \<and> moveId mv = mid"
proof -
  from getNextPlayer_defined [OF assms(2), of pid]
  obtain nxt where nxt: "getNextPlayer (players g) pid = Inr nxt" by blast
  let ?mv = "\<lparr>moveId = mid, gameId = gid, playerId = pid,
              moveNumber = int (length (moves g)) + 1, moveType = STRIKE,
              moveData = \<lparr>strikerPosition = strikerPosition_in m,
                          targetCoins = (case targetCoins_in m of None \<Rightarrow> [] | Some t \<Rightarrow> t),
                          force = force_in m, angle = angle_in m,
                          result = physResult (simulateMove_src (board (gameState g)) m)\<rparr>,
              timestamp = now\<rparr>"
  have "processMove (sourceEnv db lock) now mid gid pid m l =
          finishMove g ((gameState g)\<lparr>currentPlayer := nxt\<rparr>) ?mv l"
    using assms(1) nxt by (simp add: processMove_def sourceEnv_def Let_def)
  then show ?thesis
    by (intro exI [of _ "(physResult (simulateMove_src (board (gameState g)) m),
                         (gameState g)\<lparr>currentPlayer := nxt\<rparr>)"] exI [of _ ?mv])
      (simp add: finishMove_def Let_def)
qed

text \<open>The moves a ledger logs, across an appended ledger.\<close>

lemma loggedMoves_append: "loggedMoves (a @ b) = loggedMoves a @ loggedMoves b"
  by (induction a rule: loggedMoves.induct) simp_all

text \<open>Two moves processed against the same stored match, the second writing after the
  first: both are accepted, and both are logged under the same number.\<close>

lemma processMove_twice:
  assumes "db gid = Some g" "players g \<noteq> []"
  shows "(\<exists>res res'.
           outcome (processMove (sourceEnv db lock) now mid gid pid m l) = Inr res
           \<and> outcome (processMove (sourceEnv db lock) now' mid' gid pid' m'
                        (ledger (processMove (sourceEnv db lock) now mid gid pid m l)))
               = Inr res')
        \<and> map (\<lambda>mv. (moveId mv, moveNumber mv))
            (loggedMoves (ledger (processMove (sourceEnv db lock) now' mid' gid pid' m'
                        (ledger (processMove (sourceEnv db lock) now mid gid pid m l)))))
          = map (\<lambda>mv. (moveId mv, moveNumber mv)) (loggedMoves l)
            @ [(mid, int (length (moves g)) + 1), (mid', int (length (moves g)) + 1)]"
proof -
  let ?l1 = "ledger (processMove (sourceEnv db lock) now mid gid pid m l)"
  from processMove_source_accepts [of db gid g lock now mid pid m l, OF assms]
  obtain res mv where
    o1: "outcome (processMove (sourceEnv db lock) now mid gid pid m l) = Inr res"
    and l1: "?l1 = l @ [UpdateGame (g\<lparr>moves := moves g @ [mv], gameState := snd res\<rparr>),
                        LogGameMove mv (snd res)]"
    and n1: "moveNumber mv = int (length (moves g)) + 1" and i1: "moveId mv = mid"
    by blast
  from processMove_source_accepts [of db gid g lock now' mid' pid' m' ?l1, OF assms]
  obtain res' mv' where
    o2: "outcome (processMove (sourceEnv db lock) now' mid' gid pid' m' ?l1) = Inr res'"
    and l2: "ledger (processMove (sourceEnv db lock) now' mid' gid pid' m' ?l1)
               = ?l1 @ [UpdateGame (g\<lparr>moves := moves g @ [mv'], gameState := snd res'\<rparr>),
                        LogGameMove mv' (snd res')]"
    and n2: "moveNumber mv' = int (length (moves g)) + 1" and i2: "moveId mv' = mid'"
    by blast
  have "loggedMoves (ledger (processMove (sourceEnv db lock) now' mid' gid pid' m' ?l1))
          = loggedMoves l @ [mv, mv']"
    unfolding l2 unfolding l1 by (simp add: loggedMoves_append)
  then have "map (\<lambda>mv. (moveId mv, moveNumber mv))
            (loggedMoves (ledger (processMove (sourceEnv db lock) now' mid' gid pid' m' ?l1)))
          = map (\<lambda>mv. (moveId mv, moveNumber mv)) (loggedMoves l)
            @ [(mid, int (length (moves g)) + 1), (mid', int (length (moves g)) + 1)]"
    by (simp add: n1 n2 i1 i2)
  with o1 o2 show ?thesis
    by blast
qed

subsection \<open>Invariants of reachable matches\<close>

lemma reachable_pool:
  "reachable d g \<Longrightarrow>
     prizePool g = calculatePrizePool (stakeAmount_in d) (maxPlayers d)
     \<and> stakeAmount g = stakeAmount_in d"
proof (induction rule: reachable.induct)
  case (created env now rid gid d l g)
  then show ?case by (simp add: createGame_fields)
next
  case (joined d g env gid now pid l g')
  then show ?case using joinGame_fields [of env gid g now pid l g'] by simp
next
  case (started d g env gid now l g')
  then show ?case using startGame_object [of env gid g now l g'] by simp
next
  case (moved d g env gid now mid pid m l g')
  then show ?case using processMove_object [of env gid g now mid pid m l g'] by simp
qed

lemma reachable_moves:
  "reachable d g \<Longrightarrow> map moveNumber (moves g) = map int [1..<Suc (length (moves g))]"
proof (induction rule: reachable.induct)
  case (created env now rid gid d l g)
  then show ?case by (simp add: createGame_fields)
next
  case (joined d g env gid now pid l g')
  then show ?case using joinGame_fields [of env gid g now pid l g'] by simp
next
  case (started d g env gid now l g')
  then show ?case using startGame_object [of env gid g now l g'] by simp
next
  case (moved d g env gid now mid pid m l g')
  from processMove_object [OF moved.hyps(2,3)]
  consider "moves g' = moves g"
    | mv where "moves g' = moves g @ [mv]" "moveNumber mv = int (length (moves g)) + 1"
    by blast
  then show ?case
  proof cases
    case 1
    with moved.IH show ?thesis by simp
  next
    case 2
    with moved.IH show ?thesis by simp
  qed
qed

subsection \<open>The example runs\<close>

text \<open>The prize pools of the examples, computed in doubles. For the fractional stake the
  product with 3 rounds to 40, so the pool is 38, where arithmetic without rounding
  would give 37.\<close>

lemma literal_005: "rnd (5 / 100) = 3602879701896397 / 72057594037927936"
  by (simp add: rnd_eval)

lemma pool_100_2: "calculatePrizePool 100 2 = 190"
  by (simp add: calculatePrizePool_def literal_005 Let_def) (simp add: rnd_eval)

lemma pool_100_4: "calculatePrizePool 100 4 = 380"
  by (simp add: calculatePrizePool_def literal_005 Let_def) (simp add: rnd_eval)

lemma pool_fractional: "calculatePrizePool fractionalStake 3 = 38"
  by (simp add: calculatePrizePool_def literal_005 fractionalStake_def Let_def)
    (simp add: rnd_eval)

lemma fractionalStake_exact:
  "rnd fractionalStake = fractionalStake
   \<and> \<lfloor>fractionalStake * 3 - fractionalStake * 3 * (5 / 100)\<rfloor> = 37"
  by (simp add: fractionalStake_def) (simp add: rnd_eval)

lemma runCreate_eq:
  "2 \<le> n \<Longrightarrow> n \<le> 4 \<Longrightarrow>
   runCreate n = \<lparr>outcome = Inr (exampleCreated n), object = Some (exampleCreated n),
      ledger = [StoreGame (exampleCreated n), LockPlayerStake ''alice'' ''g1'' 100]\<rparr>"
  by (simp add: runCreate_def createGame_def validateGameCreation_def schemaIssues_def
      exampleData_def sourceEnv_def lockGranted_def exampleCreated_def Let_def)

lemma example_join:
  "joinGame (sourceEnv (oneGame (exampleCreated n)) lockGranted) 1 ''g1'' ''bob''
      [StoreGame (exampleCreated n), LockPlayerStake ''alice'' ''g1'' 100] =
     \<lparr>outcome = Inr (exampleJoined n), object = Some (exampleJoined n),
      ledger = [StoreGame (exampleCreated n), LockPlayerStake ''alice'' ''g1'' 100,
                LockPlayerStake ''bob'' ''g1'' 100, UpdateGame (exampleJoined n),
                InitiateGameStart ''g1'']\<rparr>"
  by (simp add: joinGame_def sourceEnv_def oneGame_def lockGranted_def exampleJoined_def
      exampleCreated_def Let_def isGameReadyToStart_def)

lemma runJoin_eq:
  "2 \<le> n \<Longrightarrow> n \<le> 4 \<Longrightarrow>
   runJoin n = \<lparr>outcome = Inr (exampleJoined n), object = Some (exampleJoined n),
      ledger = [StoreGame (exampleCreated n), LockPlayerStake ''alice'' ''g1'' 100,
                LockPlayerStake ''bob'' ''g1'' 100, UpdateGame (exampleJoined n),
                InitiateGameStart ''g1'']\<rparr>"
  by (simp add: runJoin_def runCreate_eq example_join)

lemma example_players:
  "assignCoinsToPlayers (players (exampleJoined n)) =
     [(createGamePlayer ''alice'' ''HOST'' 0)\<lparr>coins := whiteCoins\<rparr>,
      (createGamePlayer ''bob'' ''PLAYER'' 1)\<lparr>coins := blackCoins\<rparr>]"
proof -
  have "[0..<2] = [0, 1::nat]" by code_simp
  then show ?thesis
    by (simp add: assignCoinsToPlayers_def exampleJoined_def exampleCreated_def)
qed

lemma example_start:
  "startGame (sourceEnv (oneGame (exampleJoined n)) lockGranted) 2 ''g1'' l =
     \<lparr>outcome = Inr (exampleStarted n), object = Some (exampleStarted n),
      ledger = l @ [UpdateGame (exampleStarted n), StartGameTimer ''g1'',
                    NotifyGameStarted (exampleStarted n)]\<rparr>"
proof -
  have g: "getGameById (sourceEnv (oneGame (exampleJoined n)) lockGranted) ''g1''
             = Some (exampleJoined n)"
    by (simp add: sourceEnv_def oneGame_def exampleJoined_def exampleCreated_def)
  have c: "canStartGame (exampleJoined n)"
    by (simp add: canStartGame_def exampleJoined_def exampleCreated_def)
  have d: "determineFirstPlayer (assignCoinsToPlayers (players (exampleJoined n))) = Inr ''alice''"
    by (simp add: example_players determineFirstPlayer_def createGamePlayer_def)
  show ?thesis
    by (simp add: startGame_def g c d Let_def exampleStarted_def)
qed

lemma runStart_eq:
  "2 \<le> n \<Longrightarrow> n \<le> 4 \<Longrightarrow>
   runStart n = \<lparr>outcome = Inr (exampleStarted n), object = Some (exampleStarted n),
      ledger = [StoreGame (exampleCreated n), LockPlayerStake ''alice'' ''g1'' 100,
                LockPlayerStake ''bob'' ''g1'' 100, UpdateGame (exampleJoined n),
                InitiateGameStart ''g1'', UpdateGame (exampleStarted n), StartGameTimer ''g1'',
                NotifyGameStarted (exampleStarted n)]\<rparr>"
  by (simp add: runStart_def runJoin_eq example_start)

lemma started_fields:
  "game_id (exampleStarted n) = ''g1'' \<and> status (exampleStarted n) = IN_PROGRESS
   \<and> moves (exampleStarted n) = [] \<and> prizePool (exampleStarted n) = calculatePrizePool 100 n
   \<and> players (exampleStarted n) =
       [(createGamePlayer ''alice'' ''HOST'' 0)\<lparr>coins := whiteCoins\<rparr>,
        (createGamePlayer ''bob'' ''PLAYER'' 1)\<lparr>coins := blackCoins\<rparr>]"
  by (simp add: exampleStarted_def example_players) (simp add: exampleJoined_def exampleCreated_def)

lemma example_next:
  "getNextPlayer [(createGamePlayer ''alice'' ''HOST'' 0)\<lparr>coins := whiteCoins\<rparr>,
                  (createGamePlayer ''bob'' ''PLAYER'' 1)\<lparr>coins := blackCoins\<rparr>] ''alice''
     = Inr ''bob''"
  by (simp add: getNextPlayer_def createGamePlayer_def)

lemma runMove_object: "object runMove = Some exampleMoved \<and> (\<exists>res. outcome runMove = Inr res)"
proof -
  have g: "getGameById (sourceEnv (oneGame (exampleStarted 2)) lockGranted) ''g1''
             = Some (exampleStarted 2)"
    by (simp add: sourceEnv_def oneGame_def started_fields)
  show ?thesis
    by (simp add: runMove_def processMove_def g Let_def)
      (simp add: sourceEnv_def simulateMove_src_def exampleInput_def exampleMoved_def
        exampleMove_def started_fields example_next finishMove_def Let_def)
qed

lemma moved_fields:
  "game_id exampleMoved = ''g1'' \<and> moves exampleMoved = [exampleMove]
   \<and> players exampleMoved =
       [(createGamePlayer ''alice'' ''HOST'' 0)\<lparr>coins := whiteCoins\<rparr>,
        (createGamePlayer ''bob'' ''PLAYER'' 1)\<lparr>coins := blackCoins\<rparr>]"
  by (simp add: exampleMoved_def started_fields)

lemma example_next_bob:
  "getNextPlayer [(createGamePlayer ''alice'' ''HOST'' 0)\<lparr>coins := whiteCoins\<rparr>,
                  (createGamePlayer ''bob'' ''PLAYER'' 1)\<lparr>coins := blackCoins\<rparr>] ''bob''
     = Inr ''alice''"
  by (simp add: getNextPlayer_def createGamePlayer_def)

lemma runMove2_object: "object runMove2 = Some exampleMoved2"
proof -
  have g: "getGameById (sourceEnv (oneGame exampleMoved) lockGranted) ''g1''
             = Some exampleMoved"
    by (simp add: sourceEnv_def oneGame_def moved_fields)
  show ?thesis
    by (simp add: runMove2_def processMove_def g Let_def)
      (simp add: sourceEnv_def simulateMove_src_def exampleInput_def exampleMoved2_def
        exampleMove2_def moved_fields example_next_bob finishMove_def Let_def)
qed

lemma runMoveBob_object:
  "object runMoveBob = Some exampleMovedBob
   \<and> loggedMoves (ledger runMoveBob) = [exampleMove, exampleMoveBob]"
proof -
  have g: "getGameById (sourceEnv (oneGame (exampleStarted 2)) lockGranted) ''g1''
             = Some (exampleStarted 2)"
    by (simp add: sourceEnv_def oneGame_def started_fields)
  have l1: "loggedMoves (ledger runMove) = [exampleMove]"
    by (simp add: runMove_def processMove_def g Let_def)
      (simp add: sourceEnv_def simulateMove_src_def exampleInput_def exampleMove_def
        started_fields example_next finishMove_def Let_def loggedMoves_append runStart_eq)
  show ?thesis
    by (simp add: runMoveBob_def processMove_def g Let_def)
      (simp add: sourceEnv_def simulateMove_src_def exampleInput_def exampleMovedBob_def
        exampleMoveBob_def started_fields example_next_bob finishMove_def Let_def
        loggedMoves_append l1)
qed

lemma runCreateFractional_object: "object runCreateFractional = Some exampleFractional"
proof -
  have r: "10 \<le> fractionalStake \<and> fractionalStake \<le> 2000"
    by (simp add: fractionalStake_def)
  show ?thesis
    by (simp add: runCreateFractional_def createGame_def validateGameCreation_def
        schemaIssues_def exampleData_def sourceEnv_def lockGranted_def exampleFractional_def
        exampleCreated_def Let_def pool_fractional r)
qed

lemma runJoinRefused_eq:
  "runJoinRefused =
     \<lparr>outcome = Inl (ErrorFrom ''Failed to join game: '' (Error ''Insufficient balance'')),
      object = Some (exampleJoined 2),
      ledger = [StoreGame (exampleCreated 2), LockPlayerStake ''alice'' ''g1'' 100]\<rparr>"
  by (simp add: runJoinRefused_def runCreate_eq joinGame_def sourceEnv_def oneGame_def
      lockRefused_def fail_def Let_def exampleJoined_def)
    (simp add: exampleCreated_def)

lemma won_fields:
  "game_id exampleWon = ''g1'' \<and> winner exampleWon = Some ''alice''
   \<and> status exampleWon = FINISHED \<and> prizePool exampleWon = 190"
  by (simp add: exampleWon_def started_fields pool_100_2)

lemma winEnv_fields:
  "getGameById (winEnv db) = db"
  "validateMove (winEnv db) = (\<lambda>game playerId moveData. (True, ''''))"
  "simulateMove (winEnv db) = simulateMove_src"
  "updateGameStateFromMove (winEnv db) = (\<lambda>currentState move physicsResult. SameObject)"
  "checkWinCondition (winEnv db) = (\<lambda>state ps. (True, ''alice''))"
  by (simp_all add: winEnv_def sourceEnv_def)

lemma runWin_eq:
  "runWin =
     \<lparr>outcome = Inr (SUCCESS, (gameState (exampleStarted 2))\<lparr>gamePhase := PHASE_FINISHED\<rparr>),
      object = Some exampleWon,
      ledger = [TransferPrize (Some ''alice'') 171 ''g1'', ReleaseAllStakes ''g1'',
                UpdatePlayerStats ''g1'', RecordGameCompletion ''g1'', UpdateGame exampleWon,
                LogGameMove exampleMove
                  ((gameState (exampleStarted 2))\<lparr>gamePhase := PHASE_FINISHED\<rparr>)]\<rparr>"
proof -
  have g: "oneGame (exampleStarted 2) ''g1'' = Some (exampleStarted 2)"
    by (simp add: oneGame_def started_fields)
  show ?thesis
    by (simp add: runWin_def processMove_def winEnv_fields g Let_def distributePrizes_def
        calculatePrizeDistribution_def finishMove_def started_fields pool_100_2)
      (simp add: exampleWon_def exampleMove_def simulateMove_src_def exampleInput_def)
qed

lemma reachable_started:
  assumes n: "2 \<le> n" "n \<le> 4"
  shows "reachable (exampleData 100 n) (exampleStarted n)"
proof -
  have "object (createGame (sourceEnv noGames lockGranted) 0 ''room1'' ''g1''
                  (exampleData 100 n) []) = Some (exampleCreated n)"
    using runCreate_eq [OF n, unfolded runCreate_def] by simp
  then have c: "reachable (exampleData 100 n) (exampleCreated n)"
    by (rule reachable.created)
  have db1: "getGameById (sourceEnv (oneGame (exampleCreated n)) lockGranted) ''g1''
               = Some (exampleCreated n)"
    by (simp add: sourceEnv_def oneGame_def exampleCreated_def)
  have "object (joinGame (sourceEnv (oneGame (exampleCreated n)) lockGranted) 1 ''g1'' ''bob''
                  (ledger (runCreate n))) = Some (exampleJoined n)"
    using runJoin_eq [OF n, unfolded runJoin_def] by simp
  with c db1 have j: "reachable (exampleData 100 n) (exampleJoined n)"
    by (rule reachable.joined)
  have db2: "getGameById (sourceEnv (oneGame (exampleJoined n)) lockGranted) ''g1''
               = Some (exampleJoined n)"
    by (simp add: sourceEnv_def oneGame_def exampleJoined_def exampleCreated_def)
  have "object (startGame (sourceEnv (oneGame (exampleJoined n)) lockGranted) 2 ''g1''
                  (ledger (runJoin n))) = Some (exampleStarted n)"
    using runStart_eq [OF n, unfolded runStart_def] by simp
  with j db2 show ?thesis
    by (rule reachable.started)
qed

lemma reachable_moved: "reachable (exampleData 100 2) exampleMoved"
proof -
  have db: "getGameById (sourceEnv (oneGame (exampleStarted 2)) lockGranted) ''g1''
               = Some (exampleStarted 2)"
    by (simp add: sourceEnv_def oneGame_def started_fields)
  have s: "reachable (exampleData 100 2) (exampleStarted 2)"
    by (rule reachable_started) simp_all
  have "object (processMove (sourceEnv (oneGame (exampleStarted 2)) lockGranted) 3 ''m1''
                  ''g1'' ''alice'' exampleInput (ledger (runStart 2))) = Some exampleMoved"
    using runMove_object [unfolded runMove_def] by simp
  with s db show ?thesis
    by (rule reachable.moved)
qed

lemma reachable_moved2: "reachable (exampleData 100 2) exampleMoved2"
proof -
  have db: "getGameById (sourceEnv (oneGame exampleMoved) lockGranted) ''g1''
               = Some exampleMoved"
    by (simp add: sourceEnv_def oneGame_def moved_fields)
  have "object (processMove (sourceEnv (oneGame exampleMoved) lockGranted) 4 ''m2''
                  ''g1'' ''bob'' exampleInput (ledger runMove)) = Some exampleMoved2"
    using runMove2_object [unfolded runMove2_def] by simp
  with reachable_moved db show ?thesis
    by (rule reachable.moved)
qed

lemma reachable_fractional: "reachable (exampleData fractionalStake 3) exampleFractional"
proof -
  have "object (createGame (sourceEnv noGames lockGranted) 0 ''room1'' ''g1''
                  (exampleData fractionalStake 3) []) = Some exampleFractional"
    using runCreateFractional_object [unfolded runCreateFractional_def] by simp
  then show ?thesis
    by (rule reachable.created)
qed

subsection \<open>Settlement\<close>

text \<open>
  Claim C1, as the code has it. \<open>distributePrizes\<close> keeps no settled flag and does not
  change the game. On a match whose winner is set (and not the empty string) every
  invocation appends to the ledger one transfer of nine tenths of the prize pool, rounded
  down, to the winner, one release of all stakes, one statistics update and one completion
  record; so a second invocation after the first records a second payout and a second
  release. Only a match without a winner is refused.
\<close>

theorem distributePrizes_repeats:
  "(winner g = Some w \<and> w \<noteq> '''' \<longrightarrow>
      distributePrizes g l =
        Inr (l @ [TransferPrize (Some w) \<lfloor>real_of_int (prizePool g) * 0.9\<rfloor> (game_id g),
                  ReleaseAllStakes (game_id g), UpdatePlayerStats (game_id g),
                  RecordGameCompletion (game_id g)])
      \<and> distributePrizes g
          (l @ [TransferPrize (Some w) \<lfloor>real_of_int (prizePool g) * 0.9\<rfloor> (game_id g),
                ReleaseAllStakes (game_id g), UpdatePlayerStats (game_id g),
                RecordGameCompletion (game_id g)]) =
        Inr (l @ [TransferPrize (Some w) \<lfloor>real_of_int (prizePool g) * 0.9\<rfloor> (game_id g),
                  ReleaseAllStakes (game_id g), UpdatePlayerStats (game_id g),
                  RecordGameCompletion (game_id g),
                  TransferPrize (Some w) \<lfloor>real_of_int (prizePool g) * 0.9\<rfloor> (game_id g),
                  ReleaseAllStakes (game_id g), UpdatePlayerStats (game_id g),
                  RecordGameCompletion (game_id g)]))
   \<and> (winner g = None \<or> winner g = Some '''' \<longrightarrow>
        distributePrizes g l =
          Inl (ErrorFrom ''Failed to distribute prizes: '' (Error ''No winner determined'')))"
  by (simp add: distributePrizes_def calculatePrizeDistribution_def)

text \<open>Witness for C1: the example match that alice has won pays 171 to alice; the match
  just created has no winner and is refused.\<close>

theorem distributePrizes_repeats_witness:
  "distributePrizes exampleWon [] =
     Inr [TransferPrize (Some ''alice'') 171 ''g1'', ReleaseAllStakes ''g1'',
          UpdatePlayerStats ''g1'', RecordGameCompletion ''g1'']
   \<and> distributePrizes (exampleCreated 2) [] =
       Inl (ErrorFrom ''Failed to distribute prizes: '' (Error ''No winner determined''))"
  using distributePrizes_repeats [of exampleWon "''alice''" "[]"]
    distributePrizes_repeats [of "exampleCreated 2" "''alice''" "[]"]
  by (simp add: won_fields) (simp add: exampleCreated_def)

text \<open>Counterexample for C1 as stated: the example match is finished by \<open>processMove\<close>
  with alice as winner; on it, the second invocation of \<open>distributePrizes\<close>, run on the
  ledger the first one left, records a second transfer to alice and a second release of
  the stakes.\<close>

theorem settlement_twice_counterexample:
  "object runWin = Some exampleWon
   \<and> status exampleWon = FINISHED \<and> winner exampleWon = Some ''alice''
   \<and> distributePrizes exampleWon [] =
       Inr [TransferPrize (Some ''alice'') 171 ''g1'', ReleaseAllStakes ''g1'',
            UpdatePlayerStats ''g1'', RecordGameCompletion ''g1'']
   \<and> distributePrizes exampleWon
         [TransferPrize (Some ''alice'') 171 ''g1'', ReleaseAllStakes ''g1'',
          UpdatePlayerStats ''g1'', RecordGameCompletion ''g1''] =
       Inr [TransferPrize (Some ''alice'') 171 ''g1'', ReleaseAllStakes ''g1'',
            UpdatePlayerStats ''g1'', RecordGameCompletion ''g1'',
            TransferPrize (Some ''alice'') 171 ''g1'', ReleaseAllStakes ''g1'',
            UpdatePlayerStats ''g1'', RecordGameCompletion ''g1'']"
  by (simp add: distributePrizes_def calculatePrizeDistribution_def won_fields runWin_eq)

text \<open>The same through \<open>processMove\<close>, which does not look at the status of the match: the
  move that finishes the match settles it, and a further move on the finished match, the
  win check holding again, settles it a second time.\<close>

lemma processMove_settles_again:
  "(\<exists>res. outcome runWinAgain = Inr res)
   \<and> payouts (ledger runWin) = [(Some ''alice'', 171)]
   \<and> payouts (ledger runWinAgain) = [(Some ''alice'', 171), (Some ''alice'', 171)]"
proof -
  have g: "oneGame exampleWon ''g1'' = Some exampleWon"
    by (simp add: oneGame_def won_fields)
  show ?thesis
    by (simp add: runWinAgain_def processMove_def winEnv_fields g Let_def distributePrizes_def
        calculatePrizeDistribution_def finishMove_def won_fields runWin_eq)
qed

subsection \<open>Prize pool\<close>

text \<open>
  Claim C2, as the code has it. The prize pool of every reachable match is the value
  \<open>createGame\<close> computed from the request, in double arithmetic: the stake times the
  configured capacity, rounded; less that product times the double \<open>0.05\<close>, rounded; the
  difference rounded, and then rounded down to an integer. It is computed from the
  capacity, not from the stakes locked so far, and no later operation changes it. For
  stake 100 and capacity 2 it is 190, which is 200 less the fee of 10.
\<close>

theorem prizePool_fixed_at_creation:
  assumes "reachable d g"
  shows "prizePool g =
           \<lfloor>rnd (rnd (stakeAmount_in d * maxPlayers d)
                  - rnd (rnd (stakeAmount_in d * maxPlayers d) * rnd (5 / 100)))\<rfloor>
         \<and> stakeAmount g = stakeAmount_in d
         \<and> (stakeAmount_in d = 100 \<and> maxPlayers d = 2 \<longrightarrow> prizePool g = 190)"
proof -
  have p: "prizePool g = calculatePrizePool (stakeAmount_in d) (maxPlayers d)"
    and s: "stakeAmount g = stakeAmount_in d"
    using reachable_pool [OF assms] by simp_all
  have "prizePool g = 190" if "stakeAmount_in d = 100 \<and> maxPlayers d = 2"
    using p that pool_100_2 by simp
  with p s show ?thesis
    by (simp add: calculatePrizePool_def Let_def)
qed

text \<open>Witness for C2: the example match of capacity 2, after create, join, start and one
  move, has prize pool 190; the match of capacity 3 created with the fractional stake has
  prize pool 38, the rounded product of stake and capacity being 40.\<close>

theorem prizePool_fixed_at_creation_witness:
  "reachable (exampleData 100 2) exampleMoved \<and> prizePool exampleMoved = 190
   \<and> reachable (exampleData fractionalStake 3) exampleFractional
   \<and> prizePool exampleFractional = 38
   \<and> \<lfloor>rnd (rnd (fractionalStake * 3) - rnd (rnd (fractionalStake * 3) * rnd (5 / 100)))\<rfloor> = 38"
  using prizePool_fixed_at_creation [OF reachable_moved] reachable_moved
    prizePool_fixed_at_creation [OF reachable_fractional] reachable_fractional
  by (simp add: exampleData_def) (simp add: exampleFractional_def)

text \<open>Counterexample for C2 as stated: a match of capacity 4 and stake 100 is started with
  two players; the stakes locked for it sum to 200, yet its prize pool is 380, more than
  the locked stakes less any fee.\<close>

theorem prizePool_counterexample:
  "object (runCreate 4) = Some (exampleCreated 4)
   \<and> object (runJoin 4) = Some (exampleJoined 4)
   \<and> object (runStart 4) = Some (exampleStarted 4)
   \<and> status (exampleStarted 4) = IN_PROGRESS
   \<and> length (players (exampleStarted 4)) = 2
   \<and> lockedStakes ''g1'' (ledger (runStart 4)) = 200
   \<and> prizePool (exampleStarted 4) = 380"
  by (simp add: runCreate_eq runJoin_eq runStart_eq started_fields pool_100_4)

subsection \<open>Joining\<close>

text \<open>
  Claim C3, as the code has it. When the join checks pass, \<open>joinGame\<close> appends the player
  to the game object's list first and asks for the stake lock next. If the lock throws,
  the join is rejected with that error, nothing is added to the ledger (no lock, no
  \<open>updateGame\<close>, no start scheduled), but the game object keeps the appended player. If
  the lock is granted, the lock is recorded before the \<open>updateGame\<close> that persists the
  longer list, and the start is scheduled when the list has reached two players.
\<close>

theorem joinGame_adds_before_lock:
  assumes "getGameById env gid = Some g"
    and "fst (canPlayerJoinGame env g pid)"
    and "fst (checkPlayerEligibility env pid (stakeAmount g))"
  shows "(lockPlayerStake env pid gid (stakeAmount g) = Some e \<longrightarrow>
            joinGame env now gid pid l =
              \<lparr>outcome = Inl (ErrorFrom ''Failed to join game: '' e),
               object = Some (g\<lparr>players := players g @ [createGamePlayer pid ''PLAYER'' now]\<rparr>),
               ledger = l\<rparr>)
       \<and> (lockPlayerStake env pid gid (stakeAmount g) = None \<longrightarrow>
            joinGame env now gid pid l =
              \<lparr>outcome = Inr (g\<lparr>players := players g @ [createGamePlayer pid ''PLAYER'' now]\<rparr>),
               object = Some (g\<lparr>players := players g @ [createGamePlayer pid ''PLAYER'' now]\<rparr>),
               ledger = l @ [LockPlayerStake pid gid (stakeAmount g),
                             UpdateGame (g\<lparr>players := players g
                                              @ [createGamePlayer pid ''PLAYER'' now]\<rparr>)]
                          @ (if 1 \<le> length (players g) then [InitiateGameStart (game_id g)]
                             else [])\<rparr>)"
  using assms
  by (auto simp: joinGame_def fail_def Let_def isGameReadyToStart_def split: prod.splits)

text \<open>Witness for C3: bob joins alice's match while the wallet refuses the lock.\<close>

theorem joinGame_adds_before_lock_witness:
  "runJoinRefused =
     \<lparr>outcome = Inl (ErrorFrom ''Failed to join game: '' (Error ''Insufficient balance'')),
      object = Some ((exampleCreated 2)\<lparr>players := players (exampleCreated 2)
                        @ [createGamePlayer ''bob'' ''PLAYER'' 1]\<rparr>),
      ledger = ledger (runCreate 2)\<rparr>"
  using joinGame_adds_before_lock [of "sourceEnv (oneGame (exampleCreated 2)) lockRefused"
      "''g1''" "exampleCreated 2" "''bob''" "Error ''Insufficient balance''" 1 "ledger (runCreate 2)"]
  by (simp add: runJoinRefused_def sourceEnv_def oneGame_def lockRefused_def)
    (simp add: exampleCreated_def)

text \<open>Counterexample for C3 as stated: the lock is refused and the join rejected, yet the
  game object's player list has grown from alice to alice and bob.\<close>

theorem partial_admission_counterexample:
  "outcome runJoinRefused =
     Inl (ErrorFrom ''Failed to join game: '' (Error ''Insufficient balance''))
   \<and> object runJoinRefused = Some (exampleJoined 2)
   \<and> map userId (players (exampleCreated 2)) = [''alice'']
   \<and> map userId (players (exampleJoined 2)) = [''alice'', ''bob'']"
  by (simp add: runJoinRefused_eq)
    (simp add: exampleJoined_def exampleCreated_def createGamePlayer_def)

text \<open>\<open>createGame\<close> follows the same order for the host: the game is stored with the host
  in its list before the host's stake is locked, and stays stored when the lock throws.\<close>

lemma createGame_stores_before_lock:
  assumes "validateGameCreation d = Inr d"
    and "fst (checkPlayerEligibility env (hostId d) (stakeAmount_in d))"
    and "lockPlayerStake env (hostId d) gid (stakeAmount_in d) = Some e"
  shows "\<exists>g. map userId (players g) = [hostId d]
           \<and> createGame env now rid gid d l =
               \<lparr>outcome = Inl (ErrorFrom ''Game creation failed: '' e), object = Some g,
                ledger = l @ [StoreGame g]\<rparr>"
  using assms
  by (auto simp: createGame_def fail_def Let_def createGamePlayer_def split: prod.splits)

subsection \<open>Move log\<close>

text \<open>
  Claim C4, as the code has it. \<open>processMove\<close> numbers a move itself, as the length of
  the log it read plus one; the caller submits no number, and no submission is rejected
  for its sequence number. Three facts follow.
  \<^item> When the operations run one after another, each reading the match as the previous
    one left it, the move numbers in the log are 1, 2, ..., n in order: contiguous,
    without gaps or duplicates, starting at 1.
  \<^item> With the checks the source has, every move on a stored match with at least one
    player is accepted, whoever submits it, and appended and logged under the next
    number.
  \<^item> Nothing serialises the moves of a match. When two moves are processed against the
    same stored match, the second having read it before the first wrote its result back,
    both are accepted and both are logged under the same number: duplicates.
\<close>

theorem moveNumbers_from_one:
  "(reachable d g \<longrightarrow> map moveNumber (moves g) = map int [1..<Suc (length (moves g))])
   \<and> (db gid = Some g0 \<and> players g0 \<noteq> [] \<longrightarrow>
        (\<exists>res mv. outcome (processMove (sourceEnv db lock) now mid gid pid m l) = Inr res
           \<and> object (processMove (sourceEnv db lock) now mid gid pid m l)
               = Some (g0\<lparr>moves := moves g0 @ [mv], gameState := snd res\<rparr>)
           \<and> ledger (processMove (sourceEnv db lock) now mid gid pid m l)
               = l @ [UpdateGame (g0\<lparr>moves := moves g0 @ [mv], gameState := snd res\<rparr>),
                      LogGameMove mv (snd res)]
           \<and> moveNumber mv = int (length (moves g0)) + 1
           \<and> playerId mv = pid \<and> moveId mv = mid))
   \<and> (db gid = Some g0 \<and> players g0 \<noteq> [] \<longrightarrow>
        (\<exists>res res'.
           outcome (processMove (sourceEnv db lock) now mid gid pid m l) = Inr res
           \<and> outcome (processMove (sourceEnv db lock) now' mid' gid pid' m'
                        (ledger (processMove (sourceEnv db lock) now mid gid pid m l)))
               = Inr res')
        \<and> map (\<lambda>mv. (moveId mv, moveNumber mv))
            (loggedMoves (ledger (processMove (sourceEnv db lock) now' mid' gid pid' m'
                        (ledger (processMove (sourceEnv db lock) now mid gid pid m l)))))
          = map (\<lambda>mv. (moveId mv, moveNumber mv)) (loggedMoves l)
            @ [(mid, int (length (moves g0)) + 1), (mid', int (length (moves g0)) + 1)])"
proof (intro conjI impI)
  assume "reachable d g"
  then show "map moveNumber (moves g) = map int [1..<Suc (length (moves g))]"
    by (rule reachable_moves)
next
  assume "db gid = Some g0 \<and> players g0 \<noteq> []"
  then show "\<exists>res mv. outcome (processMove (sourceEnv db lock) now mid gid pid m l) = Inr res
           \<and> object (processMove (sourceEnv db lock) now mid gid pid m l)
               = Some (g0\<lparr>moves := moves g0 @ [mv], gameState := snd res\<rparr>)
           \<and> ledger (processMove (sourceEnv db lock) now mid gid pid m l)
               = l @ [UpdateGame (g0\<lparr>moves := moves g0 @ [mv], gameState := snd res\<rparr>),
                      LogGameMove mv (snd res)]
           \<and> moveNumber mv = int (length (moves g0)) + 1
           \<and> playerId mv = pid \<and> moveId mv = mid"
    using processMove_source_accepts [of db gid g0 lock now mid pid m l] by blast
next
  assume "db gid = Some g0 \<and> players g0 \<noteq> []"
  then show "\<exists>res res'.
           outcome (processMove (sourceEnv db lock) now mid gid pid m l) = Inr res
           \<and> outcome (processMove (sourceEnv db lock) now' mid' gid pid' m'
                        (ledger (processMove (sourceEnv db lock) now mid gid pid m l)))
               = Inr res'"
    using processMove_twice [of db gid g0 lock now mid pid m l now' mid' pid' m'] by blast
next
  assume "db gid = Some g0 \<and> players g0 \<noteq> []"
  then show "map (\<lambda>mv. (moveId mv, moveNumber mv))
            (loggedMoves (ledger (processMove (sourceEnv db lock) now' mid' gid pid' m'
                        (ledger (processMove (sourceEnv db lock) now mid gid pid m l)))))
          = map (\<lambda>mv. (moveId mv, moveNumber mv)) (loggedMoves l)
            @ [(mid, int (length (moves g0)) + 1), (mid', int (length (moves g0)) + 1)]"
    using processMove_twice [of db gid g0 lock now mid pid m l now' mid' pid' m'] by blast
qed

text \<open>Witness for C4. Run in sequence, alice's strike and bob's answer leave the log
  numbered 1, 2: bob's strike is processed on the stored match that holds alice's and is
  appended under the number 2. Processed against the started match both, the two strikes
  are logged under the number 1.\<close>

theorem moveNumbers_from_one_witness:
  "reachable (exampleData 100 2) exampleMoved2
   \<and> map moveNumber (moves exampleMoved2) = [1, 2]
   \<and> oneGame exampleMoved ''g1'' = Some exampleMoved \<and> players exampleMoved \<noteq> []
   \<and> (\<exists>res mv. outcome runMove2 = Inr res
         \<and> object runMove2 = Some (exampleMoved\<lparr>moves := [exampleMove, mv], gameState := snd res\<rparr>)
         \<and> moveNumber mv = 2 \<and> playerId mv = ''bob'' \<and> moveId mv = ''m2'')
   \<and> oneGame (exampleStarted 2) ''g1'' = Some (exampleStarted 2)
   \<and> players (exampleStarted 2) \<noteq> []
   \<and> (\<exists>res res'. outcome runMove = Inr res \<and> outcome runMoveBob = Inr res')
   \<and> map (\<lambda>mv. (moveId mv, moveNumber mv)) (loggedMoves (ledger runMoveBob))
       = [(''m1'', 1), (''m2'', 1)]"
proof -
  have u: "[1..<Suc (Suc (Suc 0))] = [1, 2::nat]" by code_simp
  have m2: "moves exampleMoved2 = [exampleMove, exampleMove2]"
    by (simp add: exampleMoved2_def)
  have db1: "oneGame exampleMoved ''g1'' = Some exampleMoved \<and> players exampleMoved \<noteq> []"
    by (simp add: oneGame_def exampleMoved_def started_fields)
  have db0: "oneGame (exampleStarted 2) ''g1'' = Some (exampleStarted 2)
             \<and> players (exampleStarted 2) \<noteq> []"
    by (simp add: oneGame_def started_fields)
  have mv1: "moves exampleMoved = [exampleMove]"
    by (simp add: exampleMoved_def)
  have l0: "loggedMoves (ledger (runStart 2)) = []"
    by (simp add: runStart_eq)
  note seq = moveNumbers_from_one [of "exampleData 100 2" exampleMoved2 "oneGame exampleMoved"
      "''g1''" exampleMoved lockGranted 4 "''m2''" "''bob''" exampleInput "ledger runMove"]
  note par = moveNumbers_from_one [of "exampleData 100 2" exampleMoved2
      "oneGame (exampleStarted 2)" "''g1''" "exampleStarted 2" lockGranted 3 "''m1''"
      "''alice''" exampleInput "ledger (runStart 2)" 3 "''m2''" "''bob''" exampleInput]
  have a: "map moveNumber (moves exampleMoved2) = [1, 2]"
    using seq reachable_moved2 by (simp add: m2 u)
  have b: "\<exists>res mv. outcome runMove2 = Inr res
         \<and> object runMove2 = Some (exampleMoved\<lparr>moves := [exampleMove, mv], gameState := snd res\<rparr>)
         \<and> moveNumber mv = 2 \<and> playerId mv = ''bob'' \<and> moveId mv = ''m2''"
  proof -
    from seq db1 obtain res mv where
      "outcome runMove2 = Inr res"
      "object runMove2 = Some (exampleMoved\<lparr>moves := moves exampleMoved @ [mv], gameState := snd res\<rparr>)"
      "moveNumber mv = int (length (moves exampleMoved)) + 1"
      "playerId mv = ''bob''" "moveId mv = ''m2''"
      unfolding runMove2_def by blast
    then show ?thesis
      by (intro exI [of _ res] exI [of _ mv]) (simp add: mv1)
  qed
  have c: "(\<exists>res res'. outcome runMove = Inr res \<and> outcome runMoveBob = Inr res')
           \<and> map (\<lambda>mv. (moveId mv, moveNumber mv)) (loggedMoves (ledger runMoveBob))
               = [(''m1'', 1), (''m2'', 1)]"
  proof -
    from par db0 have
      "(\<exists>res res'. outcome runMove = Inr res \<and> outcome runMoveBob = Inr res')
       \<and> map (\<lambda>mv. (moveId mv, moveNumber mv)) (loggedMoves (ledger runMoveBob))
           = map (\<lambda>mv. (moveId mv, moveNumber mv)) (loggedMoves (ledger (runStart 2)))
             @ [(''m1'', int (length (moves (exampleStarted 2))) + 1),
                (''m2'', int (length (moves (exampleStarted 2))) + 1)]"
      unfolding runMove_def runMoveBob_def by blast
    then show ?thesis
      by (simp add: l0 started_fields)
  qed
  from a b c db0 db1 reachable_moved2 show ?thesis
    by blast
qed

text \<open>Counterexample for C4 as stated: the first move recorded in a freshly started match
  carries the number 1, not 0; and bob's strike, processed against the started match
  while alice's is, is accepted and logged under the number 1 as well.\<close>

theorem first_move_number_counterexample:
  "moves (exampleStarted 2) = []
   \<and> object runMove = Some exampleMoved
   \<and> map moveNumber (moves exampleMoved) = [1]
   \<and> object runMoveBob = Some exampleMovedBob
   \<and> map moveNumber (moves exampleMovedBob) = [1]
   \<and> map moveNumber (loggedMoves (ledger runMoveBob)) = [1, 1]"
  by (simp add: runMove_object runMoveBob_object started_fields)
    (simp add: exampleMoved_def exampleMove_def exampleMovedBob_def exampleMoveBob_def)

subsection \<open>Leaving the waiting state\<close>

text \<open>
  Claim C5, as the code has it. A match is created in WAITING and \<open>joinGame\<close> keeps it
  there. Only \<open>startGame\<close> moves a waiting match into play: it sets IN_PROGRESS directly,
  keeps the number of players, and does so exactly when the match has at least two
  players; the configured capacity is not stored on the match and is not consulted.
  \<open>processMove\<close> can take a waiting match only to FINISHED.
\<close>

theorem leaves_waiting_at_two:
  "(object (createGame env now rid gid d l) = Some g' \<longrightarrow> status g' = WAITING)
   \<and> (getGameById env gid = Some g \<and> status g = WAITING \<longrightarrow>
        (object (joinGame env now gid pid l) = Some g' \<longrightarrow> status g' = WAITING)
        \<and> (object (startGame env now gid l) = Some g' \<and> status g' \<noteq> WAITING \<longrightarrow>
             status g' = IN_PROGRESS \<and> 2 \<le> length (players g)
             \<and> length (players g') = length (players g))
        \<and> (2 \<le> length (players g) \<longrightarrow>
             (\<exists>s. object (startGame env now gid l) = Some s \<and> status s = IN_PROGRESS))
        \<and> (object (processMove env now mid gid pid m l) = Some g' \<and> status g' \<noteq> WAITING \<longrightarrow>
             status g' = FINISHED))"
proof -
  have "status g' = WAITING" if "object (createGame env now rid gid d l) = Some g'"
    using createGame_fields [OF that] by simp
  moreover have "status g' = WAITING"
    if "getGameById env gid = Some g" "status g = WAITING"
      "object (joinGame env now gid pid l) = Some g'"
    using joinGame_fields [OF that(1,3)] that(2) by simp
  moreover have "status g' = IN_PROGRESS \<and> 2 \<le> length (players g)
                  \<and> length (players g') = length (players g)"
    if "getGameById env gid = Some g" "status g = WAITING"
      "object (startGame env now gid l) = Some g'" "status g' \<noteq> WAITING"
    using startGame_object [OF that(1,3)] that(2,4) by (auto simp: canStartGame_def)
  moreover have "\<exists>s. object (startGame env now gid l) = Some s \<and> status s = IN_PROGRESS"
    if "getGameById env gid = Some g" "status g = WAITING" "2 \<le> length (players g)"
    using startGame_starts [OF that] by blast
  moreover have "status g' = FINISHED"
    if "getGameById env gid = Some g" "status g = WAITING"
      "object (processMove env now mid gid pid m l) = Some g'" "status g' \<noteq> WAITING"
    using processMove_object [OF that(1,3)] that(2,4) by auto
  ultimately show ?thesis by blast
qed

text \<open>Witness for C5: the example match of capacity 2 waits with two players and is started.\<close>

theorem leaves_waiting_at_two_witness:
  "status (exampleJoined 2) = WAITING \<and> length (players (exampleJoined 2)) = 2
   \<and> object (runStart 2) = Some (exampleStarted 2)
   \<and> status (exampleStarted 2) = IN_PROGRESS"
  using leaves_waiting_at_two [of "sourceEnv (oneGame (exampleJoined 2)) lockGranted" 2
      "''room1''" "''g1''" "exampleData 100 2" "ledger (runJoin 2)" "exampleStarted 2"
      "exampleJoined 2" "''bob''" "''m1''" exampleInput]
  by (simp add: runStart_eq started_fields) (simp add: exampleJoined_def exampleCreated_def)

text \<open>Counterexample for C5 as stated: a match created with capacity 4 leaves WAITING for
  IN_PROGRESS with two players.\<close>

theorem capacity_counterexample:
  "maxPlayers (exampleData 100 4) = 4
   \<and> object (runCreate 4) = Some (exampleCreated 4)
   \<and> object (runJoin 4) = Some (exampleJoined 4)
   \<and> status (exampleJoined 4) = WAITING
   \<and> object (runStart 4) = Some (exampleStarted 4)
   \<and> status (exampleStarted 4) = IN_PROGRESS
   \<and> length (players (exampleStarted 4)) = 2"
  by (simp add: runCreate_eq runJoin_eq runStart_eq started_fields)
    (simp add: exampleData_def exampleJoined_def exampleCreated_def)

end
